theory Spec2Isabelle
  imports Main
begin

section \<open>JavaScript strings and numbers\<close>

text \<open>
  Strings are \<open>string\<close> (lists of 8-bit characters): the model covers ASCII text.
  \<open>toLowerCase\<close> and \<open>toUpperCase\<close> shift the 26 ASCII letters, and \<open>trim\<close>
  removes the ASCII white space of ECMAScript (TAB, LF, VT, FF, CR, SP) from both ends.

  A JavaScript number is modelled as \<open>int option\<close>: \<open>Some n\<close> is the integer-valued number
  \<open>n\<close> and \<open>None\<close> is \<open>NaN\<close>. Fractions, infinities and the rounding of doubles beyond
  \<open>2^53\<close> are outside the model.
\<close>

definition toLowerChar :: "char \<Rightarrow> char" where
  "toLowerChar c =
     (let n = (of_char c :: nat) in if 65 \<le> n \<and> n \<le> 90 then char_of (n + 32) else c)"

definition toUpperChar :: "char \<Rightarrow> char" where
  "toUpperChar c =
     (let n = (of_char c :: nat) in if 97 \<le> n \<and> n \<le> 122 then char_of (n - 32) else c)"

definition toLowerCase :: "string \<Rightarrow> string" where
  "toLowerCase s = map toLowerChar s"

definition toUpperCase :: "string \<Rightarrow> string" where
  "toUpperCase s = map toUpperChar s"

definition isWhiteSpace :: "char \<Rightarrow> bool" where
  "isWhiteSpace c = ((of_char c :: nat) \<in> {9, 10, 11, 12, 13, 32})"

definition trim :: "string \<Rightarrow> string" where
  "trim s = rev (dropWhile isWhiteSpace (rev (dropWhile isWhiteSpace s)))"

text \<open>\<open>startsWith s p\<close>: \<open>p\<close> is a prefix of \<open>s\<close>; \<open>includesStr s q\<close>: \<open>q\<close> occurs in \<open>s\<close>
  as a contiguous substring (\<open>String.prototype.includes\<close>).\<close>

fun startsWith :: "string \<Rightarrow> string \<Rightarrow> bool" where
  "startsWith s [] = True"
| "startsWith [] (p # ps) = False"
| "startsWith (c # cs) (p # ps) = (c = p \<and> startsWith cs ps)"

fun includesStr :: "string \<Rightarrow> string \<Rightarrow> bool" where
  "includesStr [] q = (q = [])"
| "includesStr (c # cs) q = (startsWith (c # cs) q \<or> includesStr cs q)"

text \<open>\<open>String(n)\<close> for a number: the decimal digits, a leading minus sign for a negative
  value, and \<open>NaN\<close> for not-a-number.\<close>

fun digitsOf :: "nat \<Rightarrow> string" where
  "digitsOf n =
     (if n < 10 then [''0123456789'' ! n]
      else digitsOf (n div 10) @ [''0123456789'' ! (n mod 10)])"

declare digitsOf.simps [simp del]

definition numberToString :: "int option \<Rightarrow> string" where
  "numberToString v =
     (case v of
        None \<Rightarrow> ''NaN''
      | Some n \<Rightarrow> if n < 0 then CHR ''-'' # digitsOf (nat (- n)) else digitsOf (nat n))"

text \<open>Arithmetic and comparison of numbers: \<open>NaN\<close> is absorbing, and every comparison
  with \<open>NaN\<close> is false. \<open>Math.floor(a / b)\<close> on integers is \<open>div\<close>.\<close>

definition jsSub :: "int option \<Rightarrow> int option \<Rightarrow> int option" where
  "jsSub a b = (case (a, b) of (Some x, Some y) \<Rightarrow> Some (x - y) | _ \<Rightarrow> None)"

definition jsMul :: "int option \<Rightarrow> int option \<Rightarrow> int option" where
  "jsMul a b = (case (a, b) of (Some x, Some y) \<Rightarrow> Some (x * y) | _ \<Rightarrow> None)"

definition jsFloorDiv :: "int option \<Rightarrow> int \<Rightarrow> int option" where
  "jsFloorDiv a k = (case a of Some x \<Rightarrow> Some (x div k) | None \<Rightarrow> None)"

definition jsLt :: "int option \<Rightarrow> int option \<Rightarrow> bool" where
  "jsLt a b = (case (a, b) of (Some x, Some y) \<Rightarrow> x < y | _ \<Rightarrow> False)"

definition jsGe :: "int option \<Rightarrow> int option \<Rightarrow> bool" where
  "jsGe a b = (case (a, b) of (Some x, Some y) \<Rightarrow> x \<ge> y | _ \<Rightarrow> False)"

section \<open>The host environment\<close>

text \<open>
  The built-ins of the browser that the code calls are parameters of the model:
  \<open>Date.now()\<close>, the parser behind \<open>new Date(string)\<close> (\<open>None\<close> is an invalid date),
  \<open>Date.prototype.toISOString\<close> on a valid time value, and \<open>new URL(s).hostname\<close>
  (\<open>None\<close> when the constructor throws). One invocation reads a single clock value.
\<close>

record host =
  dateNow :: int
  dateParse :: "string \<Rightarrow> int option"
  isoString :: "int \<Rightarrow> string"
  urlHostname :: "string \<Rightarrow> string option"

text \<open>A \<open>Date\<close> object is its time value in milliseconds, \<open>None\<close> for an invalid date.
  \<open>new Date(number)\<close> clips: a value beyond 8.64e15 ms in magnitude is an invalid date.\<close>

definition newDateOfNumber :: "int option \<Rightarrow> int option" where
  "newDateOfNumber v =
     (case v of
        None \<Rightarrow> None
      | Some ms \<Rightarrow> if \<bar>ms\<bar> \<le> 8640000000000000 then Some ms else None)"

text \<open>The values the date utilities accept: \<open>Date | number | string\<close>.\<close>

datatype dateInput = DateObj "int option" | NumberVal "int option" | StringVal string

section \<open>Date utilities\<close>

text \<open>\<open>nowMinusHours(hours)\<close>, with \<open>hours\<close> a number: \<open>Number(hours) || 0\<close> turns \<open>NaN\<close>
  into 0. The result is the \<open>Date\<close>.\<close>

definition nowMinusHours :: "host \<Rightarrow> int option \<Rightarrow> int option" where
  "nowMinusHours h hours =
     (let hrs = (case hours of None \<Rightarrow> 0 | Some x \<Rightarrow> x);
          ms = dateNow h - hrs * 60 * 60 * 1000
      in newDateOfNumber (Some ms))"

text \<open>\<open>formatRelativeTime\<close>. With an invalid date every comparison is false and the last
  branch prints \<open>NaNd ago\<close>.\<close>

definition formatRelativeTime :: "host \<Rightarrow> dateInput \<Rightarrow> string" where
  "formatRelativeTime h isoOrDate =
     (let date =
            (case isoOrDate of
               DateObj d \<Rightarrow> d
             | NumberVal n \<Rightarrow>
                 (if length (numberToString n) \<le> 10
                  then newDateOfNumber (jsMul n (Some 1000))
                  else newDateOfNumber n)
             | StringVal s \<Rightarrow> dateParse h s);
          diffMs = jsSub (Some (dateNow h)) date
      in if jsLt diffMs (Some 0) then ''now''
         else
           let seconds = jsFloorDiv diffMs 1000 in
           if jsLt seconds (Some 60) then ''now''
           else
             let minutes = jsFloorDiv seconds 60 in
             if jsLt minutes (Some 60) then numberToString minutes @ ''m ago''
             else
               let hours = jsFloorDiv minutes 60 in
               if jsLt hours (Some 24) then numberToString hours @ ''h ago''
               else
                 let days = jsFloorDiv hours 24 in
                 numberToString days @ ''d ago'')"

text \<open>\<open>isWithinLastHours\<close>. For a number the time value is the number itself (times 1000
  when its string form has at most 10 characters); no \<open>Date\<close> is built from it.\<close>

definition isWithinLastHours :: "host \<Rightarrow> dateInput \<Rightarrow> int option \<Rightarrow> bool" where
  "isWithinLastHours h isoOrUnix hours =
     (let windowStart = nowMinusHours h hours;
          tsMs =
            (case isoOrUnix of
               DateObj d \<Rightarrow> d
             | NumberVal n \<Rightarrow>
                 (if length (numberToString n) \<le> 10 then jsMul n (Some 1000) else n)
             | StringVal s \<Rightarrow> dateParse h s)
      in if tsMs = None then False else jsGe tsMs windowStart)"

section \<open>Development items and the raw records they are built from\<close>

text \<open>A \<open>DevelopmentItem\<close>. \<open>summary\<close>, \<open>tags\<close> and \<open>relativeTime\<close> are absent (\<open>None\<close>)
  on the objects that do not carry the key.\<close>

record item =
  itemId :: string
  title :: string
  url :: string
  source :: string
  publishedAt :: string
  summary :: "string option"
  tags :: "string list option"
  relativeTime :: "string option"

record envelope =
  items :: "item list"
  usedMock :: bool

text \<open>Thrown values: the constructor and the message.\<close>

datatype jsError = Error string | TypeError string | SyntaxError string | RangeError string

text \<open>An entry of the static mock file \<open>data/mockDevelopments.json\<close>, a Hacker News hit and
  a NewsAPI/GNews article. A field is \<open>None\<close> when the JSON object lacks it; when present it
  has the JSON type the code expects (a string, for \<open>created_at_i\<close> an integer).
  \<open>a_sourceName\<close> is \<open>a.source && a.source.name\<close>.\<close>

record mockEntry =
  m_id :: "string option"
  m_title :: "string option"
  m_url :: "string option"
  m_source :: "string option"
  m_publishedAt :: "string option"
  m_summary :: "string option"
  m_tags :: "string list option"

record hit =
  h_objectID :: "string option"
  h_url :: "string option"
  h_story_url :: "string option"
  h_title :: "string option"
  h_story_title :: "string option"
  h_created_at_i :: "int option"
  h_created_at :: "string option"

record article =
  a_url :: "string option"
  a_title :: "string option"
  a_publishedAt :: "string option"
  a_description :: "string option"
  a_sourceName :: "string option"

text \<open>\<open>x || d\<close> for an optional string field: the absent field and the empty string are
  falsy.\<close>

definition orElse :: "string option \<Rightarrow> string \<Rightarrow> string" where
  "orElse x d = (case x of None \<Rightarrow> d | Some s \<Rightarrow> if s = [] then d else s)"

definition truthy :: "string option \<Rightarrow> bool" where
  "truthy x = (case x of None \<Rightarrow> False | Some s \<Rightarrow> s \<noteq> [])"

text \<open>\<open>arr.map((x, idx) => ...)\<close> where the callback may throw: the first exception ends
  the traversal.\<close>

fun mapE :: "(nat \<Rightarrow> 'a \<Rightarrow> jsError + 'b) \<Rightarrow> nat \<Rightarrow> 'a list \<Rightarrow> jsError + 'b list" where
  "mapE f idx [] = Inr []"
| "mapE f idx (x # xs) =
     (case f idx x of
        Inl e \<Rightarrow> Inl e
      | Inr y \<Rightarrow> (case mapE f (Suc idx) xs of Inl e \<Rightarrow> Inl e | Inr ys \<Rightarrow> Inr (y # ys)))"

text \<open>\<open>date.toISOString()\<close> throws a \<open>RangeError\<close> on an invalid date.\<close>

definition toISOString :: "host \<Rightarrow> int option \<Rightarrow> jsError + string" where
  "toISOString h d =
     (case d of None \<Rightarrow> Inl (RangeError ''Invalid time value'') | Some t \<Rightarrow> Inr (isoString h t))"

text \<open>\<open>isWithinLastHours\<close> called with values outside its documented parameter types. Of
  these, the primitives on which a conversion throws are modelled: a \<open>Symbol\<close> and a
  \<open>BigInt\<close> as input (\<open>new Date(x)\<close> throws a \<open>TypeError\<close>), and for \<open>hours\<close> a \<open>Symbol\<close>
  (\<open>Number(hours)\<close> throws) and a \<open>BigInt\<close> (\<open>Number(10n)\<close> is 10). \<open>nowMinusHours(hours)\<close>
  is evaluated first. The messages are representative.\<close>

datatype anyInput = Typed dateInput | BigIntInput int | SymbolInput

datatype hoursArg = HoursNumber "int option" | HoursBigInt int | HoursSymbol

definition numberOfHours :: "hoursArg \<Rightarrow> jsError + int option" where
  "numberOfHours hours =
     (case hours of
        HoursNumber n \<Rightarrow> Inr n
      | HoursBigInt n \<Rightarrow> Inr (Some n)
      | HoursSymbol \<Rightarrow> Inl (TypeError ''Cannot convert a Symbol value to a number''))"

definition isWithinLastHoursAny :: "host \<Rightarrow> anyInput \<Rightarrow> hoursArg \<Rightarrow> jsError + bool" where
  "isWithinLastHoursAny h isoOrUnix hours =
     (case numberOfHours hours of
        Inl e \<Rightarrow> Inl e
      | Inr hrs \<Rightarrow>
          (case isoOrUnix of
             Typed v \<Rightarrow> Inr (isWithinLastHours h v hrs)
           | BigIntInput n \<Rightarrow> Inl (TypeError ''Cannot convert a BigInt value to a number'')
           | SymbolInput \<Rightarrow> Inl (TypeError ''Cannot convert a Symbol value to a number'')))"

section \<open>The provider service\<close>

definition getDomain :: "host \<Rightarrow> string \<Rightarrow> string" where
  "getDomain h u =
     (case urlHostname h u of
        None \<Rightarrow> []
      | Some hn \<Rightarrow> if startsWith hn ''www.'' then drop 4 hn else hn)"

definition buildAiQuery :: string where
  "buildAiQuery =
     ''AI OR LLM OR GPT OR OpenAI OR Anthropic OR Claude OR Llama OR Gemini OR Stable Diffusion OR Cohere''"

text \<open>The browser state read by \<open>urlMockEnabled\<close>: \<open>mockParam\<close> is
  \<open>new URLSearchParams(window.location.search).get('mock')\<close>, \<open>locationHash\<close> is
  \<open>window.location.hash\<close>, \<open>useMockGlobal\<close> is \<open>Boolean(window.__USE_MOCK)\<close>. The reads do
  not throw in a browser, so the \<open>catch\<close> branch is not taken.\<close>

record window =
  mockParam :: "string option"
  locationHash :: string
  useMockGlobal :: bool

definition urlMockEnabled :: "window \<Rightarrow> bool" where
  "urlMockEnabled w =
     (let hasQueryMock =
            (case mockParam w of
               None \<Rightarrow> False
             | Some p \<Rightarrow> p \<noteq> [] \<and> toLowerCase p \<in> set [''1'', ''true'', ''on'', ''yes'']);
          hasHashMock = includesStr (toLowerCase (locationHash w)) ''mock'';
          globalFlag = useMockGlobal w
      in hasQueryMock \<or> hasHashMock \<or> globalFlag)"

definition buildMockEntry :: "host \<Rightarrow> nat \<Rightarrow> mockEntry \<Rightarrow> item" where
  "buildMockEntry h idx m =
     \<lparr> itemId = orElse (m_id m) (''mock-'' @ numberToString (Some (int idx))),
       title = orElse (m_title m) ''AI development'',
       url = orElse (m_url m) ''https://example.com'',
       source = orElse (m_source m)
                  (if truthy (m_url m) then getDomain h (the (m_url m)) else ''mock''),
       publishedAt = orElse (m_publishedAt m) (isoString h (dateNow h)),
       summary = Some (orElse (m_summary m) []),
       tags = m_tags m,
       relativeTime = None \<rparr>"

definition buildMockData :: "host \<Rightarrow> mockEntry list \<Rightarrow> item list" where
  "buildMockData h staticMock = map (\<lambda>(idx, m). buildMockEntry h idx m) (enumerate 0 staticMock)"

definition normalizeHit :: "host \<Rightarrow> nat \<Rightarrow> hit \<Rightarrow> jsError + item" where
  "normalizeHit h idx x =
     (let u = orElse (h_url x) (orElse (h_story_url x) []);
          t = orElse (h_title x) (orElse (h_story_title x) []);
          publishedMs =
            (case h_created_at_i x of
               Some i \<Rightarrow>
                 if i \<noteq> 0 then Some (i * 1000)
                 else if truthy (h_created_at x) then dateParse h (the (h_created_at x))
                 else Some (dateNow h)
             | None \<Rightarrow>
                 if truthy (h_created_at x) then dateParse h (the (h_created_at x))
                 else Some (dateNow h))
      in case toISOString h (newDateOfNumber publishedMs) of
           Inl e \<Rightarrow> Inl e
         | Inr isoStr \<Rightarrow>
             Inr \<lparr> itemId = orElse (h_objectID x) (numberToString publishedMs @ ''-'' @ t),
                   title = t,
                   url = u,
                   source = (let d = getDomain h u in if d = [] then ''news.ycombinator.com'' else d),
                   publishedAt = isoStr,
                   summary = None,
                   tags = None,
                   relativeTime = None \<rparr>)"

definition normalizeFromHN :: "host \<Rightarrow> hit list \<Rightarrow> jsError + item list" where
  "normalizeFromHN h hits =
     (case mapE (normalizeHit h) 0 hits of
        Inl e \<Rightarrow> Inl e
      | Inr xs \<Rightarrow> Inr (filter (\<lambda>x. title x \<noteq> [] \<and> url x \<noteq> []) xs))"

text \<open>\<open>normalizeFromNewsAPI\<close> and \<open>normalizeFromGNews\<close> differ in the fallback label only.\<close>

definition normalizeArticle :: "string \<Rightarrow> host \<Rightarrow> nat \<Rightarrow> article \<Rightarrow> jsError + item" where
  "normalizeArticle label h idx a =
     (let u = orElse (a_url a) [];
          t = orElse (a_title a) []
      in case (if truthy (a_publishedAt a) then toISOString h (dateParse h (the (a_publishedAt a)))
               else Inr (isoString h (dateNow h))) of
           Inl e \<Rightarrow> Inl e
         | Inr isoStr \<Rightarrow>
             Inr \<lparr> itemId = orElse (a_url a) (numberToString (Some (int idx))),
                   title = t,
                   url = u,
                   source = (let d = getDomain h u in
                             if d \<noteq> [] then d else orElse (a_sourceName a) label),
                   publishedAt = isoStr,
                   summary = Some (orElse (a_description a) []),
                   tags = None,
                   relativeTime = None \<rparr>)"

definition normalizeFromNewsAPI :: "host \<Rightarrow> article list \<Rightarrow> jsError + item list" where
  "normalizeFromNewsAPI h articles =
     (case mapE (normalizeArticle ''newsapi'' h) 0 articles of
        Inl e \<Rightarrow> Inl e
      | Inr xs \<Rightarrow> Inr (filter (\<lambda>x. title x \<noteq> [] \<and> url x \<noteq> []) xs))"

definition normalizeFromGNews :: "host \<Rightarrow> article list \<Rightarrow> jsError + item list" where
  "normalizeFromGNews h articles =
     (case mapE (normalizeArticle ''gnews'' h) 0 articles of
        Inl e \<Rightarrow> Inl e
      | Inr xs \<Rightarrow> Inr (filter (\<lambda>x. title x \<noteq> [] \<and> url x \<noteq> []) xs))"

text \<open>\<open>dedupeByUrl\<close>: the loop over \<open>items\<close> with the set \<open>seen\<close>; an item pushed to \<open>out\<close>
  is the head of the result.\<close>

fun dedupeLoop :: "string set \<Rightarrow> item list \<Rightarrow> item list" where
  "dedupeLoop seen [] = []"
| "dedupeLoop seen (it # rest) =
     (let key = trim (url it)
      in if key = [] \<or> key \<in> seen then dedupeLoop seen rest
         else it # dedupeLoop (insert key seen) rest)"

definition dedupeByUrl :: "item list \<Rightarrow> item list" where
  "dedupeByUrl its = dedupeLoop {} its"

definition filterWithinHours :: "host \<Rightarrow> item list \<Rightarrow> int option \<Rightarrow> item list" where
  "filterWithinHours h its hours =
     filter (\<lambda>it. isWithinLastHours h (StringVal (publishedAt it)) hours) its"

definition applyTitleFilter :: "item list \<Rightarrow> string \<Rightarrow> item list" where
  "applyTitleFilter its query =
     (if query = [] then its
      else let q = toLowerCase (trim query)
           in if q = [] then its
              else filter (\<lambda>it. includesStr (toLowerCase (title it)) q) its)"

definition addRelativeTime :: "host \<Rightarrow> item list \<Rightarrow> item list" where
  "addRelativeTime h its =
     map (\<lambda>it. it\<lparr>relativeTime := Some (formatRelativeTime h (StringVal (publishedAt it)))\<rparr>) its"

text \<open>\<open>filtered.sort((a, b) => new Date(b.publishedAt) - new Date(a.publishedAt))\<close>.
  A comparator result of \<open>NaN\<close> counts as 0. The sort is the stable insertion sort: an
  element stays in front of the later elements it does not compare greater than. (With
  invalid dates the comparator is inconsistent and an engine may order differently; the
  result is a permutation in any case.)\<close>

definition compareDesc :: "host \<Rightarrow> item \<Rightarrow> item \<Rightarrow> int" where
  "compareDesc h a b =
     (case jsSub (dateParse h (publishedAt b)) (dateParse h (publishedAt a)) of
        None \<Rightarrow> 0
      | Some d \<Rightarrow> d)"

fun insertSorted :: "host \<Rightarrow> item \<Rightarrow> item list \<Rightarrow> item list" where
  "insertSorted h x [] = [x]"
| "insertSorted h x (y # ys) =
     (if compareDesc h x y \<le> 0 then x # y # ys else y # insertSorted h x ys)"

definition sortItems :: "host \<Rightarrow> item list \<Rightarrow> item list" where
  "sortItems h xs = foldr (insertSorted h) xs []"

text \<open>The environment variables and the network. A request is answered by a rejection
  of \<open>fetch\<close> or by a response with a status and a body; the body is not JSON, or the JSON
  \<open>null\<close>, or an object whose \<open>hits\<close> and \<open>articles\<close> fields are arrays when present
  (any other JSON value reads like an object without these fields).\<close>

record procEnv =
  REACT_APP_DATA_PROVIDER :: "string option"
  REACT_APP_USE_MOCK :: "string option"
  REACT_APP_NEWSAPI_KEY :: "string option"
  REACT_APP_GNEWS_KEY :: "string option"

datatype jsonBody = Malformed | JsonNull | JsonObject "hit list option" "article list option"

datatype fetchOutcome = Rejected | Response nat jsonBody

definition hnEndpoint :: string where
  "hnEndpoint = ''https://hn.algolia.com/api/v1/search_by_date''"

definition newsApiEndpoint :: string where
  "newsApiEndpoint = ''https://newsapi.org/v2/everything''"

definition gnewsEndpoint :: string where
  "gnewsEndpoint = ''https://gnews.io/api/v4/search''"

text \<open>The sequence \<open>await fetch(url)\<close>, \<open>if (!res.ok) throw new Error(...)\<close>,
  \<open>await res.json()\<close> and the read of a field of \<open>data\<close>, shared by the three branches.
  The messages of the errors thrown by the browser itself are representative.\<close>

definition fetchJson ::
  "(string \<Rightarrow> fetchOutcome) \<Rightarrow> string \<Rightarrow> string
     \<Rightarrow> jsError + (hit list option \<times> article list option)" where
  "fetchJson net endpoint label =
     (case net endpoint of
        Rejected \<Rightarrow> Inl (TypeError ''Failed to fetch'')
      | Response status body \<Rightarrow>
          if \<not> (200 \<le> status \<and> status \<le> 299)
          then Inl (Error (label @ '' fetch failed: '' @ numberToString (Some (int status))))
          else (case body of
                  Malformed \<Rightarrow> Inl (SyntaxError ''Unexpected token in JSON'')
                | JsonNull \<Rightarrow> Inl (TypeError ''Cannot read properties of null'')
                | JsonObject hs arts \<Rightarrow> Inr (hs, arts)))"

text \<open>\<open>fetchFromProvider\<close>: the result (\<open>Inl\<close> is the exception thrown) and the list of
  the endpoints requested, in order.\<close>

function fetchFromProvider ::
  "host \<Rightarrow> procEnv \<Rightarrow> (string \<Rightarrow> fetchOutcome) \<Rightarrow> string
     \<Rightarrow> (jsError + item list) \<times> string list" where
  "fetchFromProvider h env net provider =
     (if provider = ''HN'' then
        (case fetchJson net hnEndpoint ''HN'' of
           Inl e \<Rightarrow> (Inl e, [hnEndpoint])
         | Inr (hs, arts) \<Rightarrow>
             (case normalizeFromHN h (case hs of None \<Rightarrow> [] | Some xs \<Rightarrow> xs) of
                Inl e \<Rightarrow> (Inl e, [hnEndpoint])
              | Inr normalized \<Rightarrow>
                  (Inr (filter (\<lambda>n. jsGe (dateParse h (publishedAt n))
                                        (nowMinusHours h (Some 48))) normalized),
                   [hnEndpoint])))
      else if provider = ''NEWSAPI'' then
        (if \<not> truthy (REACT_APP_NEWSAPI_KEY env)
         then (Inl (Error ''Missing REACT_APP_NEWSAPI_KEY for NEWSAPI provider''), [])
         else
           (case fetchJson net newsApiEndpoint ''NewsAPI'' of
              Inl e \<Rightarrow> (Inl e, [newsApiEndpoint])
            | Inr (hs, arts) \<Rightarrow>
                (normalizeFromNewsAPI h (case arts of None \<Rightarrow> [] | Some xs \<Rightarrow> xs),
                 [newsApiEndpoint])))
      else if provider = ''GNEWS'' then
        (if \<not> truthy (REACT_APP_GNEWS_KEY env)
         then (Inl (Error ''Missing REACT_APP_GNEWS_KEY for GNEWS provider''), [])
         else
           (case fetchJson net gnewsEndpoint ''GNews'' of
              Inl e \<Rightarrow> (Inl e, [gnewsEndpoint])
            | Inr (hs, arts) \<Rightarrow>
                (normalizeFromGNews h (case arts of None \<Rightarrow> [] | Some xs \<Rightarrow> xs),
                 [gnewsEndpoint])))
      else fetchFromProvider h env net ''HN'')"
  by pat_completeness auto
termination
  by (relation "measure (\<lambda>(h, env, net, provider). if provider = ''HN'' then 0 else 1)") auto

declare fetchFromProvider.simps [simp del]

section \<open>The pipeline\<close>

definition runPipeline :: "host \<Rightarrow> string \<Rightarrow> item list \<Rightarrow> item list" where
  "runPipeline h queryText its =
     (let deduped = dedupeByUrl its;
          filtered = applyTitleFilter deduped queryText;
          sorted = sortItems h filtered
      in addRelativeTime h sorted)"

definition prepareMock :: "host \<Rightarrow> bool \<Rightarrow> mockEntry list \<Rightarrow> string \<Rightarrow> item list" where
  "prepareMock h forceMock staticMock queryText =
     (let mock = buildMockData h staticMock;
          within = filterWithinHours h mock (Some 48);
          hasWithin = (length within > 0);
          base = (if forceMock \<and> \<not> hasWithin then mock else within)
      in runPipeline h queryText base)"

text \<open>\<open>fetchDevelopments\<close>: \<open>Inr\<close> is the value the promise resolves with, \<open>Inl\<close> the
  reason it rejects with. \<open>attempt\<close> is the \<open>try\<close> block; the \<open>catch\<close> clause logs the error
  and returns the mock result.\<close>

definition fetchDevelopments ::
  "host \<Rightarrow> procEnv \<Rightarrow> window \<Rightarrow> mockEntry list \<Rightarrow> (string \<Rightarrow> fetchOutcome) \<Rightarrow> string
     \<Rightarrow> jsError + envelope" where
  "fetchDevelopments h env w staticMock net queryText =
     (let provider = toUpperCase (orElse (REACT_APP_DATA_PROVIDER env) ''HN'');
          envMock = (toLowerCase (orElse (REACT_APP_USE_MOCK env) ''false'') = ''true'');
          forceMock = urlMockEnabled w;
          mockOn = (envMock \<or> forceMock);
          mockResult = \<lparr> items = prepareMock h forceMock staticMock queryText, usedMock = True \<rparr>;
          attempt =
            (if mockOn then Inr mockResult
             else
               (case fst (fetchFromProvider h env net provider) of
                  Inl err \<Rightarrow> Inl err
                | Inr processed \<Rightarrow>
                    if length processed = 0 then Inr mockResult
                    else
                      let processed' = filterWithinHours h processed (Some 48)
                      in if length processed' = 0 then Inr mockResult
                         else Inr \<lparr> items = runPipeline h queryText processed',
                                    usedMock = False \<rparr>))
      in case attempt of
           Inl err \<Rightarrow> Inr mockResult
         | Inr r \<Rightarrow> Inr r)"

section \<open>Notions used to state the properties\<close>

text \<open>The number of decimal digits of an integer (of its magnitude).\<close>

definition decimalDigits :: "int \<Rightarrow> nat" where
  "decimalDigits n = length (digitsOf (nat \<bar>n\<bar>))"

text \<open>The display bucket of a relative-time string, read back from the string: the unit
  (0 for \<open>now\<close>, 1 for minutes, 2 for hours, 3 for days) and the count in front of it.
  \<open>olderOrSame a b\<close>: bucket \<open>a\<close> is not more recent than bucket \<open>b\<close>.\<close>

definition digitValue :: "char \<Rightarrow> nat" where
  "digitValue c = of_char c - 48"

definition parseNat :: "string \<Rightarrow> nat" where
  "parseNat s = foldl (\<lambda>a c. 10 * a + digitValue c) 0 s"

definition bucketRank :: "string \<Rightarrow> nat \<times> nat" where
  "bucketRank s =
     (if s = ''now'' then (0, 0)
      else
        let k = length s - 5;
            unit = s ! k
        in ((if unit = CHR ''m'' then 1 else if unit = CHR ''h'' then 2 else 3),
            parseNat (take k s)))"

definition olderOrSame :: "nat \<times> nat \<Rightarrow> nat \<times> nat \<Rightarrow> bool" where
  "olderOrSame a b = (fst b < fst a \<or> (fst a = fst b \<and> snd b \<le> snd a))"

section \<open>Sample inputs\<close>

text \<open>A host whose clock reads 2023-11-14T22:13:20Z and whose date parser knows two
  timestamps: one 800 seconds old and one more than four days old.\<close>

definition sampleHost :: host where
  "sampleHost =
     \<lparr> dateNow = 1700000000000,
       dateParse = (\<lambda>s. if s = ''2023-11-14T22:00:00Z'' then Some 1699999200000
                        else if s = ''2023-11-10T00:00:00Z'' then Some 1699574400000
                        else None),
       isoString = (\<lambda>t. ''2023-11-14T22:13:20.000Z''),
       urlHostname = (\<lambda>u. None) \<rparr>"

definition sampleItem :: "string \<Rightarrow> string \<Rightarrow> string \<Rightarrow> item" where
  "sampleItem u t p =
     \<lparr> itemId = u, title = t, url = u, source = ''example.com'', publishedAt = p,
       summary = None, tags = None, relativeTime = None \<rparr>"

text \<open>An environment with no variable set, a browser window with no mock indicator, a
  mock file whose only entry is more than four days old, and a network on which every
  request fails.\<close>

definition sampleEnv :: procEnv where
  "sampleEnv =
     \<lparr> REACT_APP_DATA_PROVIDER = None, REACT_APP_USE_MOCK = None,
       REACT_APP_NEWSAPI_KEY = None, REACT_APP_GNEWS_KEY = None \<rparr>"

definition sampleWindow :: window where
  "sampleWindow = \<lparr> mockParam = None, locationHash = [], useMockGlobal = False \<rparr>"

definition staleMock :: "mockEntry list" where
  "staleMock =
     [\<lparr> m_id = Some ''a'', m_title = Some ''Old news'', m_url = Some ''https://example.com/a'',
        m_source = Some ''example.com'', m_publishedAt = Some ''2023-11-10T00:00:00Z'',
        m_summary = None, m_tags = None \<rparr>]"

definition offlineNet :: "string \<Rightarrow> fetchOutcome" where
  "offlineNet endpoint = Rejected"

section \<open>Numbers as strings and relative-time buckets\<close>

lemma jsSub_simps:
  "jsSub (Some a) (Some b) = Some (a - b)" "jsSub None y = None" "jsSub x None = None"
  by (simp_all add: jsSub_def split: option.splits)

lemma jsMul_simps:
  "jsMul (Some a) (Some b) = Some (a * b)" "jsMul None y = None" "jsMul x None = None"
  by (simp_all add: jsMul_def split: option.splits)

lemma jsFloorDiv_simps:
  "jsFloorDiv (Some a) k = Some (a div k)" "jsFloorDiv None k = None"
  by (simp_all add: jsFloorDiv_def)

lemma jsLt_simps:
  "jsLt (Some a) (Some b) = (a < b)" "jsLt None y = False" "jsLt x None = False"
  by (simp_all add: jsLt_def split: option.splits)

lemma jsGe_simps:
  "jsGe (Some a) (Some b) = (b \<le> a)" "jsGe None y = False" "jsGe x None = False"
  by (simp_all add: jsGe_def split: option.splits)

lemma formatRelativeTime_valid0:
  "formatRelativeTime h (DateObj (Some t)) =
     (let d = dateNow h - t in
      if d < 0 then ''now''
      else if d div 1000 < 60 then ''now''
      else if d div 1000 div 60 < 60 then numberToString (Some (d div 1000 div 60)) @ ''m ago''
      else if d div 1000 div 60 div 60 < 24 then numberToString (Some (d div 1000 div 60 div 60)) @ ''h ago''
      else numberToString (Some (d div 1000 div 60 div 60 div 24)) @ ''d ago'')"
  unfolding formatRelativeTime_def Let_def dateInput.case jsSub_simps jsLt_simps jsFloorDiv_simps
  by (rule refl)

lemma digit_nth: "d < 10 \<Longrightarrow> of_char (''0123456789'' ! d) = (48::nat) + d"
  by (auto simp: less_Suc_eq numeral_eq_Suc)

lemma length_digitsOf: "length (digitsOf n) = (if n < 10 then 1 else Suc (length (digitsOf (n div 10))))"
  by (subst digitsOf.simps) simp

lemma length_digitsOf_pos: "0 < length (digitsOf n)"
  by (subst digitsOf.simps) simp

lemma parseNat_snoc: "parseNat (s @ [c]) = 10 * parseNat s + digitValue c"
  by (simp add: parseNat_def)

lemma parseNat_digitsOf: "parseNat (digitsOf n) = n"
proof (induction n rule: digitsOf.induct)
  case (1 n)
  show ?case
  proof (cases "n < 10")
    case True
    then show ?thesis
      by (subst digitsOf.simps) (simp add: parseNat_def digitValue_def digit_nth)
  next
    case False
    have "n mod 10 < 10" by simp
    then have "digitValue (''0123456789'' ! (n mod 10)) = n mod 10"
      unfolding digitValue_def by (subst digit_nth) simp_all
    with False 1 show ?thesis
      by (subst digitsOf.simps) (simp add: parseNat_snoc)
  qed
qed

lemma bucketRank_now: "bucketRank ''now'' = (0, 0)"
  by (simp add: bucketRank_def)

lemma bucketRank_m: "bucketRank (digitsOf n @ ''m ago'') = (1, n)"
  using length_digitsOf_pos[of n]
  by (auto simp: bucketRank_def Let_def parseNat_digitsOf nth_append)

lemma bucketRank_h: "bucketRank (digitsOf n @ ''h ago'') = (2, n)"
  using length_digitsOf_pos[of n]
  by (auto simp: bucketRank_def Let_def parseNat_digitsOf nth_append)

lemma bucketRank_d: "bucketRank (digitsOf n @ ''d ago'') = (3, n)"
  using length_digitsOf_pos[of n]
  by (auto simp: bucketRank_def Let_def parseNat_digitsOf nth_append)


lemma numberToString_nonneg: "0 \<le> n \<Longrightarrow> numberToString (Some n) = digitsOf (nat n)"
  by (simp add: numberToString_def)

lemma bucketRank_format:
  assumes "t \<le> dateNow h"
  shows "bucketRank (formatRelativeTime h (DateObj (Some t))) =
     (if (dateNow h - t) < 0 then (0, 0)
      else if (dateNow h - t) div 1000 < 60 then (0, 0)
      else if (dateNow h - t) div 1000 div 60 < 60 then (1, nat ((dateNow h - t) div 1000 div 60))
      else if (dateNow h - t) div 1000 div 60 div 60 < 24
        then (2, nat ((dateNow h - t) div 1000 div 60 div 60))
      else (3, nat ((dateNow h - t) div 1000 div 60 div 60 div 24)))"
proof -
  define d where "d = dateNow h - t"
  define s where "s = d div 1000"
  define m where "m = s div 60"
  define hr where "hr = m div 60"
  define dy where "dy = hr div 24"
  have d0: "0 \<le> d" using assms by (simp add: d_def)
  have s0: "0 \<le> s" using d0 by (simp add: s_def pos_imp_zdiv_nonneg_iff)
  have m0: "0 \<le> m" using s0 by (simp add: m_def pos_imp_zdiv_nonneg_iff)
  have h0: "0 \<le> hr" using m0 by (simp add: hr_def pos_imp_zdiv_nonneg_iff)
  have y0: "0 \<le> dy" using h0 by (simp add: dy_def pos_imp_zdiv_nonneg_iff)
  have fmt: "formatRelativeTime h (DateObj (Some t)) =
      (if d < 0 then ''now'' else if s < 60 then ''now''
       else if m < 60 then numberToString (Some m) @ ''m ago''
       else if hr < 24 then numberToString (Some hr) @ ''h ago''
       else numberToString (Some dy) @ ''d ago'')"
    unfolding formatRelativeTime_valid0 Let_def d_def s_def m_def hr_def dy_def by (rule refl)
  have "bucketRank (formatRelativeTime h (DateObj (Some t))) =
      (if d < 0 then (0, 0) else if s < 60 then (0, 0)
       else if m < 60 then (1, nat m) else if hr < 24 then (2, nat hr) else (3, nat dy))"
    unfolding fmt
    by (simp add: numberToString_nonneg m0 h0 y0 bucketRank_now bucketRank_m bucketRank_h bucketRank_d)
  then show ?thesis
    unfolding d_def s_def m_def hr_def dy_def .
qed

lemma rank_mono:
  fixes d1 d2 s1 s2 m1 m2 h1 h2 k1 k2 :: int
  assumes "0 \<le> d2" "d2 \<le> d1" "s2 \<le> s1" "m2 \<le> m1" "h2 \<le> h1" "k2 \<le> k1"
  shows "olderOrSame
           (if d1 < 0 then (0, 0) else if s1 < 60 then (0, 0) else if m1 < 60 then (1, nat m1)
            else if h1 < 24 then (2, nat h1) else (3, nat k1))
           (if d2 < 0 then (0, 0) else if s2 < 60 then (0, 0) else if m2 < 60 then (1, nat m2)
            else if h2 < 24 then (2, nat h2) else (3, nat k2))"
  using assms by (auto simp: olderOrSame_def)

text \<open>Claim C6. \<open>formatRelativeTime\<close> is monotonic: for instants \<open>t1 < t2 \<le> now\<close> the
  bucket printed for \<open>t1\<close> (read back from the string: \<open>now\<close> before minutes before hours
  before days, a larger count older within a unit) is never more recent than the bucket
  printed for \<open>t2\<close>.\<close>

theorem formatRelativeTime_monotonic:
  assumes "t1 < t2" and "t2 \<le> dateNow h"
  shows "olderOrSame (bucketRank (formatRelativeTime h (DateObj (Some t1))))
                     (bucketRank (formatRelativeTime h (DateObj (Some t2))))"
proof -
  define d1 where "d1 = dateNow h - t1"
  define d2 where "d2 = dateNow h - t2"
  have d: "0 \<le> d2" "d2 \<le> d1" using assms by (simp_all add: d1_def d2_def)
  have s: "d2 div 1000 \<le> d1 div 1000" by (rule zdiv_mono1[OF d(2)]) simp
  have m: "d2 div 1000 div 60 \<le> d1 div 1000 div 60" by (rule zdiv_mono1[OF s]) simp
  have hh: "d2 div 1000 div 60 div 60 \<le> d1 div 1000 div 60 div 60" by (rule zdiv_mono1[OF m]) simp
  have dd: "d2 div 1000 div 60 div 60 div 24 \<le> d1 div 1000 div 60 div 60 div 24"
    by (rule zdiv_mono1[OF hh]) simp
  have le1: "t1 \<le> dateNow h" using assms by simp
  show ?thesis
    unfolding bucketRank_format[OF le1] bucketRank_format[OF assms(2)] d1_def[symmetric] d2_def[symmetric]
    by (rule rank_mono[OF d s m hh dd])
qed

text \<open>At the sample clock, a timestamp four days old against one 800 seconds old.\<close>

theorem formatRelativeTime_monotonic_witness:
  "(1699574400000 :: int) < 1699999200000 \<and> 1699999200000 \<le> dateNow sampleHost \<and>
   olderOrSame (bucketRank (formatRelativeTime sampleHost (DateObj (Some 1699574400000))))
               (bucketRank (formatRelativeTime sampleHost (DateObj (Some 1699999200000))))"
  using formatRelativeTime_monotonic[of 1699574400000 1699999200000 sampleHost]
  by (simp add: sampleHost_def)

section \<open>The seconds-or-milliseconds heuristic\<close>

lemma length_digitsOf_le: "0 < k \<Longrightarrow> length (digitsOf n) \<le> k \<longleftrightarrow> n < 10 ^ k"
proof (induction n arbitrary: k rule: digitsOf.induct)
  case (1 n)
  show ?case
  proof (cases "n < 10")
    case True
    have "(10::nat) ^ 1 \<le> 10 ^ k" using 1(2) by (intro power_increasing) auto
    with True show ?thesis using 1(2) by (simp add: length_digitsOf)
  next
    case False
    show ?thesis
    proof (cases k)
      case 0
      with 1(2) show ?thesis by simp
    next
      case (Suc j)
      show ?thesis
      proof (cases "j = 0")
        case True
        with Suc False show ?thesis using length_digitsOf_pos[of "n div 10"] by (simp add: length_digitsOf)
      next
        case jpos: False
        have "length (digitsOf (n div 10)) \<le> j \<longleftrightarrow> n div 10 < 10 ^ j"
          using 1(1)[OF False, of j] jpos by simp
        moreover have "n div 10 < 10 ^ j \<longleftrightarrow> n < 10 ^ Suc j"
          by (simp add: div_less_iff_less_mult mult.commute)
        ultimately show ?thesis using False Suc by (simp add: length_digitsOf)
      qed
    qed
  qed
qed

lemma decimalDigits_le: "0 < k \<Longrightarrow> decimalDigits n \<le> k \<longleftrightarrow> \<bar>n\<bar> < 10 ^ k"
proof -
  assume k: "0 < k"
  have "nat \<bar>n\<bar> < 10 ^ k \<longleftrightarrow> \<bar>n\<bar> < 10 ^ k"
    by (metis abs_ge_zero nat_less_iff of_nat_numeral of_nat_power)
  then show ?thesis
    unfolding decimalDigits_def length_digitsOf_le[OF k] .
qed

lemma numberToString_length_nonneg:
  "0 \<le> n \<Longrightarrow> length (numberToString (Some n)) \<le> 10 \<longleftrightarrow> decimalDigits n \<le> 10"
  by (simp add: numberToString_def decimalDigits_def)

lemma numberToString_length_neg:
  "n < 0 \<Longrightarrow> length (numberToString (Some n)) \<le> 10 \<longleftrightarrow> decimalDigits n \<le> 9"
  by (simp add: numberToString_def decimalDigits_def abs_if)

lemma newDateOfNumber_simps:
  "newDateOfNumber None = None"
  "newDateOfNumber (Some ms) = (if \<bar>ms\<bar> \<le> 8640000000000000 then Some ms else None)"
  by (simp_all add: newDateOfNumber_def)

lemma formatRelativeTime_number:
  "formatRelativeTime h (NumberVal (Some n)) =
     formatRelativeTime h (DateObj (newDateOfNumber
        (Some (if length (numberToString (Some n)) \<le> 10 then n * 1000 else n))))"
  by (simp add: formatRelativeTime_def jsMul_simps)

lemma isWithinLastHours_number:
  "isWithinLastHours h (NumberVal (Some n)) hours =
     isWithinLastHours h (DateObj
        (Some (if length (numberToString (Some n)) \<le> 10 then n * 1000 else n))) hours"
  by (simp add: isWithinLastHours_def jsMul_simps)

text \<open>Claim C5, as amended. The unit of a numeric timestamp is chosen by the length of
  its string form, in \<open>formatRelativeTime\<close> and in \<open>isWithinLastHours\<close> alike: a non-negative
  integer with at most 10 decimal digits is taken as seconds since the epoch and one with
  more than 10 digits as milliseconds; for a negative integer the minus sign counts, so at
  most 9 digits mean seconds and 10 or more mean milliseconds.\<close>

theorem numeric_unit_heuristic:
  "((0 \<le> n \<and> decimalDigits n \<le> 10) \<or> (n < 0 \<and> decimalDigits n \<le> 9) \<longrightarrow>
      formatRelativeTime h (NumberVal (Some n)) =
        formatRelativeTime h (DateObj (newDateOfNumber (Some (n * 1000)))) \<and>
      isWithinLastHours h (NumberVal (Some n)) hours =
        isWithinLastHours h (DateObj (Some (n * 1000))) hours) \<and>
   ((0 \<le> n \<and> 10 < decimalDigits n) \<or> (n < 0 \<and> 9 < decimalDigits n) \<longrightarrow>
      formatRelativeTime h (NumberVal (Some n)) =
        formatRelativeTime h (DateObj (newDateOfNumber (Some n))) \<and>
      isWithinLastHours h (NumberVal (Some n)) hours =
        isWithinLastHours h (DateObj (Some n)) hours)"
proof (cases "0 \<le> n")
  case True
  then show ?thesis
    unfolding formatRelativeTime_number isWithinLastHours_number
    by (simp add: numberToString_length_nonneg)
next
  case False
  then have "n < 0" by simp
  then show ?thesis
    unfolding formatRelativeTime_number isWithinLastHours_number
    by (simp add: numberToString_length_neg)
qed




text \<open>The claim as stated fails on a negative number: \<open>-1234567890\<close> has 10 decimal digits
  and is taken as milliseconds (19690 days before the sample clock, and inside a window of
  480000 hours), not as seconds (33964 days, outside that window).\<close>

theorem numeric_unit_heuristic_counterexample:
  "decimalDigits (- 1234567890) \<le> 10 \<and>
   formatRelativeTime sampleHost (NumberVal (Some (- 1234567890))) = ''19690d ago'' \<and>
   formatRelativeTime sampleHost (DateObj (newDateOfNumber (Some (- 1234567890 * 1000))))
     = ''33964d ago'' \<and>
   isWithinLastHours sampleHost (NumberVal (Some (- 1234567890))) (Some 480000) \<and>
   \<not> isWithinLastHours sampleHost (DateObj (Some (- 1234567890 * 1000))) (Some 480000)"
proof -
  have a: "decimalDigits (- 1234567890) \<le> 10"
    by (simp add: decimalDigits_le)
  have b: "formatRelativeTime sampleHost (NumberVal (Some (- 1234567890))) = ''19690d ago''"
    by (simp add: formatRelativeTime_number numberToString_length_neg decimalDigits_le
        formatRelativeTime_valid0 newDateOfNumber_simps sampleHost_def numberToString_def
        digitsOf.simps)
  have c: "formatRelativeTime sampleHost (DateObj (newDateOfNumber (Some (- 1234567890 * 1000))))
             = ''33964d ago''"
    by (simp add: formatRelativeTime_valid0 newDateOfNumber_simps sampleHost_def
        numberToString_def digitsOf.simps)
  have d: "isWithinLastHours sampleHost (NumberVal (Some (- 1234567890))) (Some 480000)"
    by (simp add: isWithinLastHours_number numberToString_length_neg decimalDigits_le
        isWithinLastHours_def nowMinusHours_def newDateOfNumber_simps jsGe_simps sampleHost_def)
  have e: "\<not> isWithinLastHours sampleHost (DateObj (Some (- 1234567890 * 1000))) (Some 480000)"
    by (simp add: isWithinLastHours_def nowMinusHours_def newDateOfNumber_simps jsGe_simps
        sampleHost_def)
  from a b c d e show ?thesis by blast
qed

text \<open>A 10-digit and a 13-digit timestamp at the sample clock.\<close>

theorem numeric_unit_heuristic_witness:
  "(0 :: int) \<le> 1699999200 \<and> decimalDigits 1699999200 \<le> 10 \<and>
   formatRelativeTime sampleHost (NumberVal (Some 1699999200)) =
     formatRelativeTime sampleHost (DateObj (newDateOfNumber (Some (1699999200 * 1000)))) \<and>
   (0 :: int) \<le> 1699999200000 \<and> 10 < decimalDigits 1699999200000 \<and>
   isWithinLastHours sampleHost (NumberVal (Some 1699999200000)) (Some 48) =
     isWithinLastHours sampleHost (DateObj (Some 1699999200000)) (Some 48)"
proof -
  have a: "decimalDigits 1699999200 \<le> 10" by (simp add: decimalDigits_le)
  have b: "10 < decimalDigits 1699999200000"
    using decimalDigits_le[of 10 1699999200000] by simp
  show ?thesis
    using numeric_unit_heuristic[of 1699999200 sampleHost "Some 48"]
          numeric_unit_heuristic[of 1699999200000 sampleHost "Some 48"] a b
    by simp
qed

section \<open>Window membership\<close>

lemma jsGe_Some_iff: "jsGe (Some t) w = (\<exists>v. w = Some v \<and> v \<le> t)"
  by (cases w) (simp_all add: jsGe_simps)

lemma nowMinusHours_in_range:
  "\<bar>dateNow h - k * 3600000\<bar> \<le> 8640000000000000 \<Longrightarrow>
     nowMinusHours h (Some k) = Some (dateNow h - k * 3600000)"
  by (simp add: nowMinusHours_def newDateOfNumber_simps Let_def mult.commute)

lemma nowMinusHours_NaN: "nowMinusHours h None = nowMinusHours h (Some 0)"
  by (simp add: nowMinusHours_def)

lemma isWithinLastHours_Date:
  "isWithinLastHours h (DateObj d) hours =
     (case d of None \<Rightarrow> False | Some t \<Rightarrow> \<exists>w. nowMinusHours h hours = Some w \<and> w \<le> t)"
  by (cases d) (simp_all add: isWithinLastHours_def jsGe_Some_iff)

lemma isWithinLastHours_String:
  "isWithinLastHours h (StringVal s) hours = isWithinLastHours h (DateObj (dateParse h s)) hours"
  by (simp add: isWithinLastHours_def)

lemma isWithinLastHours_NaN: "\<not> isWithinLastHours h (NumberVal None) hours"
  by (simp add: isWithinLastHours_def numberToString_def jsMul_simps)

lemma number_unit_by_digits:
  "(length (numberToString (Some n)) \<le> 10) =
     ((0 \<le> n \<and> decimalDigits n \<le> 10) \<or> (n < 0 \<and> decimalDigits n \<le> 9))"
proof (cases "0 \<le> n")
  case True
  then show ?thesis by (simp add: numberToString_length_nonneg)
next
  case False
  then have "n < 0" by simp
  then show ?thesis by (simp add: numberToString_length_neg)
qed

text \<open>Claim C8, as amended. On an input of type \<open>Date | number | string\<close> with a numeric
  \<open>hours\<close>, \<open>isWithinLastHours\<close> does not throw, and it returns true exactly when the window
  start \<open>nowMinusHours(hours)\<close> is a valid date and the input's instant is at or after it:
  the time value of a valid \<open>Date\<close>; the parsed time of a string; and for a number the number
  itself, times 1000 when it is taken as seconds (non-negative with at most 10 decimal digits,
  or negative with at most 9), with no check against the range of \<open>Date\<close>. An invalid
  \<open>Date\<close>, \<open>NaN\<close> and an unparseable string give false. A \<open>NaN\<close> \<open>hours\<close> counts as 0, and
  a window start in the range of \<open>Date\<close> is the clock minus \<open>hours\<close> times 3600000 ms.\<close>

theorem isWithinLastHours_typed_inputs:
  "isWithinLastHoursAny h (Typed x) (HoursNumber hours) = Inr (isWithinLastHours h x hours) \<and>
   (isWithinLastHours h (DateObj (Some t)) hours \<longleftrightarrow>
      (\<exists>w. nowMinusHours h hours = Some w \<and> w \<le> t)) \<and>
   (isWithinLastHours h (StringVal s) hours \<longleftrightarrow>
      (\<exists>u w. dateParse h s = Some u \<and> nowMinusHours h hours = Some w \<and> w \<le> u)) \<and>
   (isWithinLastHours h (NumberVal (Some n)) hours \<longleftrightarrow>
      (\<exists>w. nowMinusHours h hours = Some w \<and>
           w \<le> (if (0 \<le> n \<and> decimalDigits n \<le> 10) \<or> (n < 0 \<and> decimalDigits n \<le> 9)
                then n * 1000 else n))) \<and>
   \<not> isWithinLastHours h (DateObj None) hours \<and>
   \<not> isWithinLastHours h (NumberVal None) hours \<and>
   (dateParse h s = None \<longrightarrow> \<not> isWithinLastHours h (StringVal s) hours) \<and>
   nowMinusHours h None = nowMinusHours h (Some 0) \<and>
   (\<bar>dateNow h - k * 3600000\<bar> \<le> 8640000000000000 \<longrightarrow>
      nowMinusHours h (Some k) = Some (dateNow h - k * 3600000))"
proof (intro conjI impI)
  show "isWithinLastHoursAny h (Typed x) (HoursNumber hours) = Inr (isWithinLastHours h x hours)"
    by (simp add: isWithinLastHoursAny_def numberOfHours_def)
  show "isWithinLastHours h (DateObj (Some t)) hours \<longleftrightarrow>
      (\<exists>w. nowMinusHours h hours = Some w \<and> w \<le> t)"
    by (simp add: isWithinLastHours_Date)
  show "isWithinLastHours h (StringVal s) hours \<longleftrightarrow>
      (\<exists>u w. dateParse h s = Some u \<and> nowMinusHours h hours = Some w \<and> w \<le> u)"
    unfolding isWithinLastHours_String isWithinLastHours_Date
    by (cases "dateParse h s") simp_all
  show "isWithinLastHours h (NumberVal (Some n)) hours \<longleftrightarrow>
      (\<exists>w. nowMinusHours h hours = Some w \<and>
           w \<le> (if (0 \<le> n \<and> decimalDigits n \<le> 10) \<or> (n < 0 \<and> decimalDigits n \<le> 9)
                then n * 1000 else n))"
    unfolding isWithinLastHours_number isWithinLastHours_Date number_unit_by_digits
    by simp
  show "\<not> isWithinLastHours h (DateObj None) hours"
    by (simp add: isWithinLastHours_Date)
  show "\<not> isWithinLastHours h (NumberVal None) hours"
    by (rule isWithinLastHours_NaN)
  show "nowMinusHours h None = nowMinusHours h (Some 0)"
    by (rule nowMinusHours_NaN)
next
  assume "dateParse h s = None"
  then show "\<not> isWithinLastHours h (StringVal s) hours"
    unfolding isWithinLastHours_String isWithinLastHours_Date by simp
next
  assume "\<bar>dateNow h - k * 3600000\<bar> \<le> 8640000000000000"
  then show "nowMinusHours h (Some k) = Some (dateNow h - k * 3600000)"
    by (rule nowMinusHours_in_range)
qed

text \<open>The claim as stated fails outside these types and on large numbers: a \<open>Symbol\<close> or
  \<open>BigInt\<close> input and a \<open>Symbol\<close> \<open>hours\<close> throw a \<open>TypeError\<close>; and the number \<open>1e16\<close>, which
  is no valid time value (\<open>new Date(1e16)\<close> is an invalid date and \<open>formatRelativeTime\<close>
  prints \<open>NaNd ago\<close> for it), is reported inside the 48-hour window.\<close>

theorem isWithinLastHours_typed_inputs_counterexample:
  "isWithinLastHoursAny sampleHost SymbolInput (HoursNumber (Some 48)) =
     Inl (TypeError ''Cannot convert a Symbol value to a number'') \<and>
   isWithinLastHoursAny sampleHost (BigIntInput 1699999200000) (HoursNumber (Some 48)) =
     Inl (TypeError ''Cannot convert a BigInt value to a number'') \<and>
   isWithinLastHoursAny sampleHost (Typed (StringVal ''2023-11-14T22:00:00Z'')) HoursSymbol =
     Inl (TypeError ''Cannot convert a Symbol value to a number'') \<and>
   newDateOfNumber (Some 10000000000000000) = None \<and>
   formatRelativeTime sampleHost (NumberVal (Some 10000000000000000)) = ''NaNd ago'' \<and>
   isWithinLastHours sampleHost (NumberVal (Some 10000000000000000)) (Some 48)"
proof -
  have a: "isWithinLastHoursAny sampleHost SymbolInput (HoursNumber (Some 48)) =
     Inl (TypeError ''Cannot convert a Symbol value to a number'')"
    by (simp add: isWithinLastHoursAny_def numberOfHours_def)
  have b: "isWithinLastHoursAny sampleHost (BigIntInput 1699999200000) (HoursNumber (Some 48)) =
     Inl (TypeError ''Cannot convert a BigInt value to a number'')"
    by (simp add: isWithinLastHoursAny_def numberOfHours_def)
  have c: "isWithinLastHoursAny sampleHost (Typed (StringVal ''2023-11-14T22:00:00Z'')) HoursSymbol =
     Inl (TypeError ''Cannot convert a Symbol value to a number'')"
    by (simp add: isWithinLastHoursAny_def numberOfHours_def)
  have d: "newDateOfNumber (Some 10000000000000000) = None"
    by (simp add: newDateOfNumber_simps)
  have big: "\<not> length (numberToString (Some 10000000000000000)) \<le> 10"
    by (simp add: number_unit_by_digits decimalDigits_le)
  have e: "formatRelativeTime sampleHost (NumberVal (Some 10000000000000000)) = ''NaNd ago''"
  proof -
    have "formatRelativeTime sampleHost (NumberVal (Some 10000000000000000)) =
            formatRelativeTime sampleHost (DateObj None)"
      unfolding formatRelativeTime_number by (simp only: big if_False d)
    also have "\<dots> = ''NaNd ago''"
      by (simp add: formatRelativeTime_def jsSub_simps jsLt_simps jsFloorDiv_simps
          numberToString_def)
    finally show ?thesis .
  qed
  have f: "isWithinLastHours sampleHost (NumberVal (Some 10000000000000000)) (Some 48)"
    unfolding isWithinLastHours_number
    by (simp add: big isWithinLastHours_def nowMinusHours_def newDateOfNumber_simps jsGe_simps
        sampleHost_def)
  from a b c d e f show ?thesis by blast
qed

text \<open>At the sample clock with a 48-hour window: an unparseable string, timestamps 800
  seconds and more than four days old as strings, and the same two as a 10-digit number of
  seconds and a 13-digit number of milliseconds.\<close>

theorem isWithinLastHours_typed_inputs_witness:
  "isWithinLastHoursAny sampleHost (Typed (StringVal ''not a date'')) (HoursNumber (Some 48))
     = Inr False \<and>
   isWithinLastHoursAny sampleHost (Typed (StringVal ''2023-11-14T22:00:00Z''))
     (HoursNumber (Some 48)) = Inr True \<and>
   isWithinLastHoursAny sampleHost (Typed (StringVal ''2023-11-10T00:00:00Z''))
     (HoursNumber (Some 48)) = Inr False \<and>
   isWithinLastHoursAny sampleHost (Typed (NumberVal (Some 1699999200)))
     (HoursNumber (Some 48)) = Inr True \<and>
   isWithinLastHoursAny sampleHost (Typed (NumberVal (Some 1699574400000)))
     (HoursNumber (Some 48)) = Inr False"
proof -
  have p: "dateParse sampleHost ''not a date'' = None"
    "dateParse sampleHost ''2023-11-14T22:00:00Z'' = Some 1699999200000"
    "dateParse sampleHost ''2023-11-10T00:00:00Z'' = Some 1699574400000"
    by (simp_all add: sampleHost_def)
  have d: "dateNow sampleHost = 1700000000000" by (simp add: sampleHost_def)
  have e: "nowMinusHours sampleHost (Some 48) = Some 1699827200000"
    by (simp add: nowMinusHours_def newDateOfNumber_simps Let_def d)
  have g: "decimalDigits 1699999200 \<le> 10" "\<not> decimalDigits 1699574400000 \<le> 10"
    by (simp_all add: decimalDigits_le)
  show ?thesis
    using isWithinLastHours_typed_inputs
            [of sampleHost "StringVal ''not a date''" "Some 48" 0 "''not a date''" 0 48]
          isWithinLastHours_typed_inputs
            [of sampleHost "StringVal ''2023-11-14T22:00:00Z''" "Some 48" 0
                "''2023-11-14T22:00:00Z''" 0 48]
          isWithinLastHours_typed_inputs
            [of sampleHost "StringVal ''2023-11-10T00:00:00Z''" "Some 48" 0
                "''2023-11-10T00:00:00Z''" 0 48]
          isWithinLastHours_typed_inputs
            [of sampleHost "NumberVal (Some 1699999200)" "Some 48" 0 "[]" 1699999200 48]
          isWithinLastHours_typed_inputs
            [of sampleHost "NumberVal (Some 1699574400000)" "Some 48" 0 "[]" 1699574400000 48]
    by (simp add: p e g)
qed

section \<open>The title filter\<close>

lemma toLowerChar_idem: "toLowerChar (toLowerChar c) = toLowerChar c"
  by (simp add: toLowerChar_def Let_def)

lemma isWhiteSpace_toLowerChar: "isWhiteSpace (toLowerChar c) = isWhiteSpace c"
  by (simp add: toLowerChar_def Let_def isWhiteSpace_def)

lemma toLowerCase_idem: "toLowerCase (toLowerCase s) = toLowerCase s"
  by (simp add: toLowerCase_def toLowerChar_idem)

lemma dropWhile_ws_lower:
  "dropWhile isWhiteSpace (map toLowerChar s) = map toLowerChar (dropWhile isWhiteSpace s)"
  by (induction s) (simp_all add: isWhiteSpace_toLowerChar)

lemma trim_toLowerCase: "trim (toLowerCase s) = toLowerCase (trim s)"
  by (simp add: trim_def toLowerCase_def dropWhile_ws_lower rev_map)

lemma dropWhile_last:
  "ys \<noteq> [] \<Longrightarrow> \<not> P (last ys) \<Longrightarrow> dropWhile P ys \<noteq> [] \<and> last (dropWhile P ys) = last ys"
  by (induction ys) (auto split: if_splits)

lemma dropWhile_hd: "dropWhile P xs = [] \<or> \<not> P (hd (dropWhile P xs))"
  by (metis hd_dropWhile)

lemma dropWhile_fix: "xs = [] \<or> \<not> P (hd xs) \<Longrightarrow> dropWhile P xs = xs"
  by (cases xs) auto

lemma trim_idem: "trim (trim s) = trim s"
proof -
  define a where "a = dropWhile isWhiteSpace s"
  define b where "b = dropWhile isWhiteSpace (rev a)"
  have tb: "trim s = rev b" by (simp add: trim_def a_def b_def)
  have front: "dropWhile isWhiteSpace (rev b) = rev b"
  proof (cases "b = []")
    case True
    then show ?thesis by simp
  next
    case False
    then have ane: "a \<noteq> []" by (auto simp: b_def)
    then have "\<not> isWhiteSpace (hd a)" using dropWhile_hd[of isWhiteSpace s] unfolding a_def by blast
    then have nl: "\<not> isWhiteSpace (last (rev a))" using ane by (simp add: last_rev)
    then have "last b = last (rev a)" using dropWhile_last[of "rev a" isWhiteSpace] ane by (simp add: b_def)
    then have "\<not> isWhiteSpace (hd (rev b))"
      using False nl by (simp add: hd_rev)
    then show ?thesis by (intro dropWhile_fix) simp
  qed
  have rear: "dropWhile isWhiteSpace b = b"
    by (simp add: b_def)
  show ?thesis
    unfolding tb by (simp add: trim_def front rear)
qed

lemma trim_Nil: "trim [] = []"
  by (simp add: trim_def)

lemma applyTitleFilter_alt:
  "applyTitleFilter its q =
     (if toLowerCase (trim q) = [] then its
      else filter (\<lambda>it. includesStr (toLowerCase (title it)) (toLowerCase (trim q))) its)"
  by (auto simp: applyTitleFilter_def Let_def trim_Nil toLowerCase_def)

lemma canonical_query: "toLowerCase (trim (toLowerCase (trim q))) = toLowerCase (trim q)"
  by (simp add: trim_toLowerCase trim_idem toLowerCase_idem)

text \<open>Claim C10. The title filter gives the same result for a query \<open>q\<close> as for the
  trimmed, lower-cased form of \<open>q\<close> (and as for \<open>q\<close> trimmed): white space around the query
  does not matter. When the trimmed query is empty the list is returned unchanged; otherwise
  an item is kept exactly when its lower-cased title contains the lower-cased trimmed
  query.\<close>

theorem titleFilter_query_normal_form:
  "applyTitleFilter its q = applyTitleFilter its (toLowerCase (trim q)) \<and>
   applyTitleFilter its q = applyTitleFilter its (trim q) \<and>
   (if toLowerCase (trim q) = [] then applyTitleFilter its q = its
    else applyTitleFilter its q =
           filter (\<lambda>it. includesStr (toLowerCase (title it)) (toLowerCase (trim q))) its)"
  by (simp add: applyTitleFilter_alt canonical_query trim_idem)


text \<open>A padded upper-case query against two titles.\<close>

lemma lower_trim_sample: "toLowerCase (trim ''  CLAUDE '') = ''claude''"
  by code_simp

theorem titleFilter_query_normal_form_witness:
  "toLowerCase (trim ''  CLAUDE '') = ''claude'' \<and>
   applyTitleFilter [sampleItem ''https://a.io/1'' ''Claude 3 released'' ''2023-11-14T22:00:00Z'',
                     sampleItem ''https://a.io/2'' ''GPT news'' ''2023-11-14T22:00:00Z'']
       ''  CLAUDE '' =
   applyTitleFilter [sampleItem ''https://a.io/1'' ''Claude 3 released'' ''2023-11-14T22:00:00Z'',
                     sampleItem ''https://a.io/2'' ''GPT news'' ''2023-11-14T22:00:00Z'']
       ''claude''"
  using titleFilter_query_normal_form
          [of "[sampleItem ''https://a.io/1'' ''Claude 3 released'' ''2023-11-14T22:00:00Z'',
                sampleItem ''https://a.io/2'' ''GPT news'' ''2023-11-14T22:00:00Z'']"
              "''  CLAUDE ''"]
  by (simp only: lower_trim_sample simp_thms)

section \<open>Deduplication and the title filter\<close>

lemma dedupeLoop_subset: "set (dedupeLoop seen its) \<subseteq> set its"
  by (induction its arbitrary: seen) (auto simp: Let_def)

lemma dedupeLoop_keys:
  "x \<in> set (dedupeLoop seen its) \<Longrightarrow> trim (url x) \<notin> seen \<and> trim (url x) \<noteq> []"
  by (induction its arbitrary: seen) (auto simp: Let_def split: if_splits)

lemma dedupeLoop_distinct: "distinct (map (\<lambda>it. trim (url it)) (dedupeLoop seen its))"
proof (induction its arbitrary: seen)
  case Nil
  show ?case by simp
next
  case (Cons it rest)
  show ?case
  proof (cases "trim (url it) = [] \<or> trim (url it) \<in> seen")
    case True
    then show ?thesis using Cons by (simp add: Let_def)
  next
    case False
    have "trim (url it) \<notin> (\<lambda>x. trim (url x)) ` set (dedupeLoop (insert (trim (url it)) seen) rest)"
    proof
      assume "trim (url it) \<in> (\<lambda>x. trim (url x)) ` set (dedupeLoop (insert (trim (url it)) seen) rest)"
      then obtain y where y: "y \<in> set (dedupeLoop (insert (trim (url it)) seen) rest)"
        and ky: "trim (url it) = trim (url y)" by blast
      from dedupeLoop_keys[OF y] ky show False by simp
    qed
    with False Cons show ?thesis by (simp add: Let_def)
  qed
qed



lemma dedupeLoop_seen_key:
  "k \<in> seen \<Longrightarrow> filter (\<lambda>it. trim (url it) = k) (dedupeLoop seen its) = []"
  using dedupeLoop_keys[of _ seen its] by (auto simp: filter_empty_conv)

lemma dedupeLoop_first:
  "k \<noteq> [] \<Longrightarrow> k \<notin> seen \<Longrightarrow> find (\<lambda>it. trim (url it) = k) its = Some x \<Longrightarrow>
     filter (\<lambda>it. trim (url it) = k) (dedupeLoop seen its) = [x]"
proof (induction its arbitrary: seen)
  case Nil
  then show ?case by simp
next
  case (Cons it rest)
  show ?case
  proof (cases "trim (url it) = k")
    case True
    then have "x = it" using Cons.prems(3) by simp
    moreover have "filter (\<lambda>it. trim (url it) = k) (dedupeLoop (insert k seen) rest) = []"
      by (rule dedupeLoop_seen_key) simp
    ultimately show ?thesis using True Cons.prems(1,2) by (simp add: Let_def)
  next
    case False
    then have f: "find (\<lambda>it. trim (url it) = k) rest = Some x" using Cons.prems(3) by simp
    have a: "filter (\<lambda>it. trim (url it) = k) (dedupeLoop seen rest) = [x]"
      by (rule Cons.IH[OF Cons.prems(1,2) f])
    have b: "filter (\<lambda>it. trim (url it) = k) (dedupeLoop (insert (trim (url it)) seen) rest) = [x]"
      by (rule Cons.IH[OF Cons.prems(1) _ f]) (use False Cons.prems(2) in auto)
    show ?thesis using False a b by (simp add: Let_def)
  qed
qed











text \<open>The claim as stated fails when two items share a url and only the later one matches:
  filtering first keeps the later item, deduplicating first drops it.\<close>

lemma trim_sample_urls:
  "trim ''https://a.io/1'' = ''https://a.io/1''" "trim ''https://a.io/2'' = ''https://a.io/2''"
  "trim '' '' = []" "trim ''bar'' = ''bar''" "trim '' https://a.io/1'' = ''https://a.io/1''"
  by (simp_all add: trim_def isWhiteSpace_def)




section \<open>Uniqueness of urls after the finishing sequence\<close>

lemma set_insertSorted: "set (insertSorted h x xs) = insert x (set xs)"
  by (induction xs) auto

lemma distinct_map_insertSorted:
  "distinct (map f (insertSorted h x xs)) = (f x \<notin> f ` set xs \<and> distinct (map f xs))"
  by (induction xs) (auto simp: set_insertSorted)

lemma set_sortItems: "set (sortItems h xs) = set xs"
  by (induction xs) (simp_all add: sortItems_def set_insertSorted)

lemma distinct_map_sortItems: "distinct (map f (sortItems h xs)) = distinct (map f xs)"
proof (induction xs)
  case Nil
  show ?case by (simp add: sortItems_def)
next
  case (Cons x xs)
  have "sortItems h (x # xs) = insertSorted h x (sortItems h xs)"
    by (simp add: sortItems_def)
  then show ?case
    using Cons by (simp add: distinct_map_insertSorted set_sortItems)
qed

lemma distinct_applyTitleFilter:
  "distinct (map f its) \<Longrightarrow> distinct (map f (applyTitleFilter its q))"
  by (simp add: applyTitleFilter_alt distinct_map_filter)

lemma map_url_addRelativeTime: "map (\<lambda>it. g (url it)) (addRelativeTime h its) = map (\<lambda>it. g (url it)) its"
  by (simp add: addRelativeTime_def)

lemma runPipeline_distinct_keys:
  "distinct (map (\<lambda>it. trim (url it)) (runPipeline h q its))"
  unfolding runPipeline_def Let_def map_url_addRelativeTime distinct_map_sortItems
  by (rule distinct_applyTitleFilter) (simp add: dedupeByUrl_def dedupeLoop_distinct)

lemma distinct_map_outer: "distinct (map (\<lambda>x. g (f x)) xs) \<Longrightarrow> distinct (map f xs)"
  by (induction xs) auto

text \<open>Claim C3, as amended. After the finishing sequence (dedupe, title filter, sort,
  annotate) no two returned items share a url, nor a trimmed url. For a non-blank trimmed
  url \<open>k\<close> that occurs in the input, the items with that trimmed url that survive
  \<open>dedupeByUrl\<close> are exactly one: the first item of the input (in provider order) whose
  trimmed url is \<open>k\<close>. An item whose url is empty or only white space is dropped: it is
  neither in the result of \<open>dedupeByUrl\<close> nor in the result of the finishing sequence.\<close>

theorem dedupe_unique_first_wins:
  "distinct (map url (runPipeline h q its)) \<and>
   distinct (map (\<lambda>it. trim (url it)) (runPipeline h q its)) \<and>
   (k \<noteq> [] \<longrightarrow> find (\<lambda>it. trim (url it) = k) its = Some x \<longrightarrow>
      filter (\<lambda>it. trim (url it) = k) (dedupeByUrl its) = [x]) \<and>
   (trim (url y) = [] \<longrightarrow> y \<notin> set (dedupeByUrl its) \<and> y \<notin> set (runPipeline h q its))"
proof (intro conjI impI)
  show "distinct (map url (runPipeline h q its))"
    by (rule distinct_map_outer[of trim]) (rule runPipeline_distinct_keys)
  show "distinct (map (\<lambda>it. trim (url it)) (runPipeline h q its))"
    by (rule runPipeline_distinct_keys)
next
  assume "k \<noteq> []" and "find (\<lambda>it. trim (url it) = k) its = Some x"
  then show "filter (\<lambda>it. trim (url it) = k) (dedupeByUrl its) = [x]"
    unfolding dedupeByUrl_def by (intro dedupeLoop_first) simp_all
next
  assume blank: "trim (url y) = []"
  then show "y \<notin> set (dedupeByUrl its)"
    unfolding dedupeByUrl_def using dedupeLoop_keys[of y "{}" its] by blast
next
  assume blank: "trim (url y) = []"
  have "(\<lambda>it. trim (url it)) ` set (runPipeline h q its)
          \<subseteq> (\<lambda>it. trim (url it)) ` set (dedupeByUrl its)"
    by (auto simp: runPipeline_def Let_def addRelativeTime_def set_sortItems
        applyTitleFilter_alt)
  moreover have "[] \<notin> (\<lambda>it. trim (url it)) ` set (dedupeByUrl its)"
    unfolding dedupeByUrl_def using dedupeLoop_keys[of _ "{}" its] by fastforce
  ultimately show "y \<notin> set (runPipeline h q its)"
    using blank by (metis image_eqI subsetD)
qed

text \<open>The claim as stated fails for a blank url, where neither of two items survives, and
  when an earlier item has the same url up to surrounding white space, where that earlier
  item survives instead of the first of the two.\<close>

theorem dedupe_unique_first_wins_counterexample:
  "url (sampleItem '' '' ''First'' ''2023-11-14T22:00:00Z'') =
     url (sampleItem '' '' ''Second'' ''2023-11-14T22:00:00Z'') \<and>
   dedupeByUrl [sampleItem '' '' ''First'' ''2023-11-14T22:00:00Z'',
                sampleItem '' '' ''Second'' ''2023-11-14T22:00:00Z''] = [] \<and>
   dedupeByUrl [sampleItem '' https://a.io/1'' ''Padded'' ''2023-11-14T22:00:00Z'',
                sampleItem ''https://a.io/1'' ''First'' ''2023-11-14T22:00:00Z'',
                sampleItem ''https://a.io/1'' ''Second'' ''2023-11-14T22:00:00Z'']
     = [sampleItem '' https://a.io/1'' ''Padded'' ''2023-11-14T22:00:00Z'']"
  by (simp add: dedupeByUrl_def sampleItem_def trim_sample_urls Let_def)

text \<open>A blank-url item followed by two items with one url and different titles: the blank
  one is dropped and the first of the two survives.\<close>

theorem dedupe_unique_first_wins_witness:
  "find (\<lambda>it. trim (url it) = ''https://a.io/1'')
     [sampleItem '' '' ''Blank'' ''2023-11-14T22:00:00Z'',
      sampleItem ''https://a.io/1'' ''First'' ''2023-11-14T22:00:00Z'',
      sampleItem ''https://a.io/1'' ''Second'' ''2023-11-14T22:00:00Z'']
     = Some (sampleItem ''https://a.io/1'' ''First'' ''2023-11-14T22:00:00Z'') \<and>
   filter (\<lambda>it. trim (url it) = ''https://a.io/1'')
     (dedupeByUrl [sampleItem '' '' ''Blank'' ''2023-11-14T22:00:00Z'',
                   sampleItem ''https://a.io/1'' ''First'' ''2023-11-14T22:00:00Z'',
                   sampleItem ''https://a.io/1'' ''Second'' ''2023-11-14T22:00:00Z''])
     = [sampleItem ''https://a.io/1'' ''First'' ''2023-11-14T22:00:00Z''] \<and>
   trim (url (sampleItem '' '' ''Blank'' ''2023-11-14T22:00:00Z'')) = [] \<and>
   sampleItem '' '' ''Blank'' ''2023-11-14T22:00:00Z'' \<notin>
     set (dedupeByUrl [sampleItem '' '' ''Blank'' ''2023-11-14T22:00:00Z'',
                       sampleItem ''https://a.io/1'' ''First'' ''2023-11-14T22:00:00Z'',
                       sampleItem ''https://a.io/1'' ''Second'' ''2023-11-14T22:00:00Z''])"
proof -
  let ?its = "[sampleItem '' '' ''Blank'' ''2023-11-14T22:00:00Z'',
      sampleItem ''https://a.io/1'' ''First'' ''2023-11-14T22:00:00Z'',
      sampleItem ''https://a.io/1'' ''Second'' ''2023-11-14T22:00:00Z'']"
  have f: "find (\<lambda>it. trim (url it) = ''https://a.io/1'') ?its
     = Some (sampleItem ''https://a.io/1'' ''First'' ''2023-11-14T22:00:00Z'')"
    by (simp add: sampleItem_def trim_sample_urls)
  have ne: "''https://a.io/1'' \<noteq> []" by simp
  have bl: "trim (url (sampleItem '' '' ''Blank'' ''2023-11-14T22:00:00Z'')) = []"
    by (simp add: sampleItem_def trim_sample_urls)
  from ne f bl dedupe_unique_first_wins
      [of sampleHost "[]" ?its "''https://a.io/1''"
          "sampleItem ''https://a.io/1'' ''First'' ''2023-11-14T22:00:00Z''"
          "sampleItem '' '' ''Blank'' ''2023-11-14T22:00:00Z''"]
  show ?thesis by blast
qed

section \<open>Mock mode and fallback in \<open>fetchDevelopments\<close>\<close>

lemma runPipeline_Nil: "runPipeline h q [] = []"
  by (simp add: runPipeline_def dedupeByUrl_def applyTitleFilter_alt sortItems_def addRelativeTime_def)

lemma prepareMock_unforced:
  "prepareMock h False sm q = runPipeline h q (filterWithinHours h (buildMockData h sm) (Some 48))"
  by (simp add: prepareMock_def Let_def)

lemma prepareMock_forced_empty:
  "filterWithinHours h (buildMockData h sm) (Some 48) = [] \<Longrightarrow>
     prepareMock h True sm q = runPipeline h q (buildMockData h sm)"
  by (simp add: prepareMock_def Let_def)

lemma prepareMock_nonempty:
  "filterWithinHours h (buildMockData h sm) (Some 48) \<noteq> [] \<Longrightarrow>
     prepareMock h f sm q = runPipeline h q (filterWithinHours h (buildMockData h sm) (Some 48))"
  by (simp add: prepareMock_def Let_def)

lemma fetchDevelopments_mockOn:
  "toLowerCase (orElse (REACT_APP_USE_MOCK env) ''false'') = ''true'' \<or> urlMockEnabled w \<Longrightarrow>
     fetchDevelopments h env w sm net q =
       Inr \<lparr> items = prepareMock h (urlMockEnabled w) sm q, usedMock = True \<rparr>"
  by (simp add: fetchDevelopments_def Let_def)

lemma fetchDevelopments_live:
  "toLowerCase (orElse (REACT_APP_USE_MOCK env) ''false'') \<noteq> ''true'' \<Longrightarrow> \<not> urlMockEnabled w \<Longrightarrow>
     fetchDevelopments h env w sm net q =
       (case fst (fetchFromProvider h env net
                    (toUpperCase (orElse (REACT_APP_DATA_PROVIDER env) ''HN''))) of
          Inl err \<Rightarrow> Inr \<lparr> items = prepareMock h False sm q, usedMock = True \<rparr>
        | Inr processed \<Rightarrow>
            if filterWithinHours h processed (Some 48) = []
            then Inr \<lparr> items = prepareMock h False sm q, usedMock = True \<rparr>
            else Inr \<lparr> items = runPipeline h q (filterWithinHours h processed (Some 48)),
                       usedMock = False \<rparr>)"
  by (auto simp: fetchDevelopments_def Let_def filterWithinHours_def split: sum.splits)

text \<open>The promise returned by \<open>fetchDevelopments\<close> resolves on every input of the model,
  and a result that is not marked as mock comes from a provider answer with at least one
  item inside the window.\<close>

lemma fetchDevelopments_resolves: "\<exists>r. fetchDevelopments h env w sm net q = Inr r"
  by (auto simp: fetchDevelopments_def Let_def split: sum.splits)

lemma fetchDevelopments_live_result:
  assumes "fetchDevelopments h env w sm net q = Inr r" and "\<not> usedMock r"
  shows "\<exists>its. fst (fetchFromProvider h env net
                       (toUpperCase (orElse (REACT_APP_DATA_PROVIDER env) ''HN''))) = Inr its \<and>
               filterWithinHours h its (Some 48) \<noteq> [] \<and>
               items r = runPipeline h q (filterWithinHours h its (Some 48))"
  using assms
  by (auto simp: fetchDevelopments_def Let_def split: sum.splits if_splits)

text \<open>Claim C1. For every query text, when mock mode is off and the provider fetch throws
  (whatever the error: configuration, network, HTTP status, parsing) or returns no item or
  only items outside the 48-hour window, \<open>fetchDevelopments\<close> resolves (\<open>Inr\<close>) with the
  items prepared from the mock data and \<open>usedMock = true\<close>; the error is not passed on.\<close>

theorem fetchDevelopments_falls_back_to_mock:
  assumes "toLowerCase (orElse (REACT_APP_USE_MOCK env) ''false'') \<noteq> ''true''"
    and "\<not> urlMockEnabled w"
    and "r = fst (fetchFromProvider h env net
                    (toUpperCase (orElse (REACT_APP_DATA_PROVIDER env) ''HN'')))"
    and "(\<exists>e. r = Inl e) \<or> r = Inr [] \<or>
         (\<exists>its. r = Inr its \<and> filterWithinHours h its (Some 48) = [])"
  shows "fetchDevelopments h env w staticMock net q =
           Inr \<lparr> items = runPipeline h q
                            (filterWithinHours h (buildMockData h staticMock) (Some 48)),
                  usedMock = True \<rparr>"
proof -
  have empty: "filterWithinHours h [] (Some 48) = []" by (simp add: filterWithinHours_def)
  from assms(4) show ?thesis
    unfolding fetchDevelopments_live[OF assms(1,2)] assms(3)[symmetric] prepareMock_unforced
    by (auto simp: empty)
qed

text \<open>The three triggers of the runtime override.\<close>

lemma urlMockEnabled_triggers:
  "useMockGlobal w \<Longrightarrow> urlMockEnabled w"
  "includesStr (toLowerCase (locationHash w)) ''mock'' \<Longrightarrow> urlMockEnabled w"
  "mockParam w = Some p \<Longrightarrow> p \<noteq> [] \<Longrightarrow>
     toLowerCase p \<in> {''1'', ''true'', ''on'', ''yes''} \<Longrightarrow> urlMockEnabled w"
  by (auto simp: urlMockEnabled_def)

text \<open>Claim C2. When mock mode is forced by the runtime override (\<open>urlMockEnabled\<close>: the
  \<open>mock\<close> URL parameter, the hash, or the global flag) and the 48-hour filter empties the mock
  data, \<open>fetchDevelopments\<close> returns the whole mock data after dedupe, title filter, sort and
  annotation, with \<open>usedMock = true\<close>. When mock mode comes from the environment flag only,
  the filtered mock data is used and there is no bypass.\<close>

theorem forced_mock_bypasses_window:
  "(urlMockEnabled w \<and> filterWithinHours h (buildMockData h staticMock) (Some 48) = [] \<longrightarrow>
      fetchDevelopments h env w staticMock net q =
        Inr \<lparr> items = runPipeline h q (buildMockData h staticMock), usedMock = True \<rparr>) \<and>
   (\<not> urlMockEnabled w \<and> toLowerCase (orElse (REACT_APP_USE_MOCK env) ''false'') = ''true'' \<longrightarrow>
      fetchDevelopments h env w staticMock net q =
        Inr \<lparr> items = runPipeline h q
                         (filterWithinHours h (buildMockData h staticMock) (Some 48)),
               usedMock = True \<rparr>)"
  by (simp add: fetchDevelopments_mockOn prepareMock_unforced prepareMock_forced_empty)

lemma older_not_within:
  assumes "dateParse h s = Some t" and "t < dateNow h - 48 * 3600000"
  shows "\<not> isWithinLastHours h (StringVal s) (Some 48)"
  using assms
  by (simp add: isWithinLastHours_def nowMinusHours_def newDateOfNumber_simps Let_def jsGe_simps)

text \<open>Claim C9. When mock mode is enabled by the environment flag only and every mock item
  is older than 48 hours, \<open>fetchDevelopments\<close> resolves with an empty item list and
  \<open>usedMock = true\<close>.\<close>

theorem configured_mock_stale_is_empty:
  assumes "toLowerCase (orElse (REACT_APP_USE_MOCK env) ''false'') = ''true''"
    and "\<not> urlMockEnabled w"
    and "\<forall>it\<in>set (buildMockData h staticMock).
           \<exists>t. dateParse h (publishedAt it) = Some t \<and> t < dateNow h - 48 * 3600000"
  shows "fetchDevelopments h env w staticMock net q = Inr \<lparr> items = [], usedMock = True \<rparr>"
proof -
  have "filterWithinHours h (buildMockData h staticMock) (Some 48) = []"
    unfolding filterWithinHours_def filter_empty_conv
    using assms(3) older_not_within by blast
  then show ?thesis
    using assms(1,2)
    by (simp add: fetchDevelopments_mockOn prepareMock_unforced runPipeline_Nil)
qed


text \<open>The sample inputs: no environment variable, no mock indicator in the window, a mock
  file with one entry four days old, and a network that rejects every request.\<close>

lemma sample_mock_data:
  "buildMockData sampleHost staleMock =
     [\<lparr> itemId = ''a'', title = ''Old news'', url = ''https://example.com/a'',
        source = ''example.com'', publishedAt = ''2023-11-10T00:00:00Z'',
        summary = Some [], tags = None, relativeTime = None \<rparr>]"
  by (simp add: buildMockData_def buildMockEntry_def staleMock_def orElse_def enumerate_eq_zip)

lemma sample_mock_stale:
  "filterWithinHours sampleHost (buildMockData sampleHost staleMock) (Some 48) = []"
  unfolding sample_mock_data
  by (simp add: filterWithinHours_def isWithinLastHours_def nowMinusHours_def
      newDateOfNumber_simps Let_def jsGe_simps sampleHost_def)

lemma sample_window_plain: "\<not> urlMockEnabled sampleWindow"
  by (simp add: urlMockEnabled_def sampleWindow_def toLowerCase_def)

lemma sample_window_forced: "urlMockEnabled (sampleWindow\<lparr>mockParam := Some ''1''\<rparr>)"
  by (simp add: urlMockEnabled_def sampleWindow_def toLowerCase_def toLowerChar_def)

lemma sample_env_live: "toLowerCase (orElse (REACT_APP_USE_MOCK sampleEnv) ''false'') \<noteq> ''true''"
  by (simp add: sampleEnv_def orElse_def toLowerCase_def toLowerChar_def)

lemma sample_env_mock:
  "toLowerCase (orElse (REACT_APP_USE_MOCK (sampleEnv\<lparr>REACT_APP_USE_MOCK := Some ''true''\<rparr>)) ''false'')
     = ''true''"
  by (simp add: sampleEnv_def orElse_def toLowerCase_def toLowerChar_def)

lemma sample_provider: "toUpperCase (orElse (REACT_APP_DATA_PROVIDER sampleEnv) ''HN'') = ''HN''"
  by (simp add: sampleEnv_def orElse_def toUpperCase_def toUpperChar_def)

lemma sample_fetch_offline:
  "fst (fetchFromProvider sampleHost sampleEnv offlineNet ''HN'') = Inl (TypeError ''Failed to fetch'')"
  by (simp add: fetchFromProvider.simps fetchJson_def offlineNet_def)

theorem fetchDevelopments_falls_back_to_mock_witness:
  "toLowerCase (orElse (REACT_APP_USE_MOCK sampleEnv) ''false'') \<noteq> ''true'' \<and>
   \<not> urlMockEnabled sampleWindow \<and>
   fst (fetchFromProvider sampleHost sampleEnv offlineNet
          (toUpperCase (orElse (REACT_APP_DATA_PROVIDER sampleEnv) ''HN'')))
     = Inl (TypeError ''Failed to fetch'') \<and>
   fetchDevelopments sampleHost sampleEnv sampleWindow staleMock offlineNet ''claude'' =
     Inr \<lparr> items = [], usedMock = True \<rparr>"
proof -
  have r: "Inl (TypeError ''Failed to fetch'') =
        fst (fetchFromProvider sampleHost sampleEnv offlineNet
               (toUpperCase (orElse (REACT_APP_DATA_PROVIDER sampleEnv) ''HN'')))"
    by (simp add: sample_provider sample_fetch_offline)
  have c: "(\<exists>e. (Inl (TypeError ''Failed to fetch'') :: jsError + item list) = Inl e) \<or>
           (Inl (TypeError ''Failed to fetch'') :: jsError + item list) = Inr [] \<or>
           (\<exists>its. (Inl (TypeError ''Failed to fetch'') :: jsError + item list) = Inr its \<and>
                  filterWithinHours sampleHost its (Some 48) = [])"
    by simp
  from fetchDevelopments_falls_back_to_mock[OF sample_env_live sample_window_plain r c,
         of staleMock "''claude''"]
  show ?thesis
    by (simp add: sample_env_live sample_window_plain r[symmetric] sample_mock_stale runPipeline_Nil)
qed

lemma sample_pipeline_forced:
  "runPipeline sampleHost [] (buildMockData sampleHost staleMock) =
     [\<lparr> itemId = ''a'', title = ''Old news'', url = ''https://example.com/a'',
        source = ''example.com'', publishedAt = ''2023-11-10T00:00:00Z'',
        summary = Some [], tags = None, relativeTime = Some ''4d ago'' \<rparr>]"
  unfolding sample_mock_data
  by (simp add: runPipeline_def dedupeByUrl_def applyTitleFilter_def sortItems_def
      addRelativeTime_def Let_def trim_def isWhiteSpace_def formatRelativeTime_def sampleHost_def
      jsSub_simps jsLt_simps jsFloorDiv_simps numberToString_def digitsOf.simps)

theorem forced_mock_bypasses_window_witness:
  "urlMockEnabled (sampleWindow\<lparr>mockParam := Some ''1''\<rparr>) \<and>
   filterWithinHours sampleHost (buildMockData sampleHost staleMock) (Some 48) = [] \<and>
   fetchDevelopments sampleHost sampleEnv (sampleWindow\<lparr>mockParam := Some ''1''\<rparr>) staleMock
       offlineNet [] =
     Inr \<lparr> items = runPipeline sampleHost [] (buildMockData sampleHost staleMock),
            usedMock = True \<rparr> \<and>
   length (runPipeline sampleHost [] (buildMockData sampleHost staleMock)) = length staleMock \<and>
   \<not> urlMockEnabled sampleWindow \<and>
   fetchDevelopments sampleHost (sampleEnv\<lparr>REACT_APP_USE_MOCK := Some ''true''\<rparr>) sampleWindow
       staleMock offlineNet [] =
     Inr \<lparr> items = [], usedMock = True \<rparr>"
proof -
  have a: "fetchDevelopments sampleHost sampleEnv (sampleWindow\<lparr>mockParam := Some ''1''\<rparr>)
             staleMock offlineNet [] =
           Inr \<lparr> items = runPipeline sampleHost [] (buildMockData sampleHost staleMock),
                  usedMock = True \<rparr>"
    using forced_mock_bypasses_window
            [of "sampleWindow\<lparr>mockParam := Some ''1''\<rparr>" sampleHost staleMock sampleEnv
                offlineNet "[]"]
          sample_window_forced sample_mock_stale
    by blast
  have "fetchDevelopments sampleHost (sampleEnv\<lparr>REACT_APP_USE_MOCK := Some ''true''\<rparr>)
          sampleWindow staleMock offlineNet [] =
        Inr \<lparr> items = runPipeline sampleHost []
                         (filterWithinHours sampleHost (buildMockData sampleHost staleMock) (Some 48)),
               usedMock = True \<rparr>"
    using forced_mock_bypasses_window
            [of sampleWindow sampleHost staleMock
                "sampleEnv\<lparr>REACT_APP_USE_MOCK := Some ''true''\<rparr>" offlineNet "[]"]
          sample_window_plain sample_env_mock
    by blast
  then have b: "fetchDevelopments sampleHost (sampleEnv\<lparr>REACT_APP_USE_MOCK := Some ''true''\<rparr>)
          sampleWindow staleMock offlineNet [] = Inr \<lparr> items = [], usedMock = True \<rparr>"
    unfolding sample_mock_stale runPipeline_Nil .
  have c: "length (runPipeline sampleHost [] (buildMockData sampleHost staleMock)) = length staleMock"
    unfolding sample_pipeline_forced by (simp add: staleMock_def)
  from a b c sample_window_forced sample_window_plain sample_mock_stale show ?thesis by blast
qed

theorem configured_mock_stale_is_empty_witness:
  "toLowerCase (orElse (REACT_APP_USE_MOCK (sampleEnv\<lparr>REACT_APP_USE_MOCK := Some ''true''\<rparr>))
      ''false'') = ''true'' \<and>
   \<not> urlMockEnabled sampleWindow \<and>
   fetchDevelopments sampleHost (sampleEnv\<lparr>REACT_APP_USE_MOCK := Some ''true''\<rparr>) sampleWindow
       staleMock offlineNet ''gpt'' =
     Inr \<lparr> items = [], usedMock = True \<rparr>"
proof -
  have old: "\<forall>it\<in>set (buildMockData sampleHost staleMock).
      \<exists>t. dateParse sampleHost (publishedAt it) = Some t \<and>
          t < dateNow sampleHost - 48 * 3600000"
    unfolding sample_mock_data by (simp add: sampleHost_def)
  from configured_mock_stale_is_empty[OF sample_env_mock sample_window_plain old,
         of offlineNet "''gpt''"] old sample_env_mock sample_window_plain
  show ?thesis by blast
qed


section \<open>Missing credentials of the keyed providers\<close>

lemma mapE_error:
  "mapE f i xs = Inl e \<Longrightarrow> \<exists>j x. f j x = Inl e"
  by (induction xs arbitrary: i) (auto split: sum.splits)

lemma toISOString_error: "toISOString h d = Inl e \<Longrightarrow> e = RangeError ''Invalid time value''"
  by (cases d) (auto simp: toISOString_def)

lemma normalizeArticle_error:
  "normalizeArticle label h idx a = Inl e \<Longrightarrow> e = RangeError ''Invalid time value''"
  by (auto simp: normalizeArticle_def Let_def split: sum.splits if_splits dest: toISOString_error)

lemma normalizeFromNewsAPI_error:
  "normalizeFromNewsAPI h arts = Inl e \<Longrightarrow> e = RangeError ''Invalid time value''"
  by (auto simp: normalizeFromNewsAPI_def split: sum.splits dest!: mapE_error normalizeArticle_error)

lemma normalizeFromGNews_error:
  "normalizeFromGNews h arts = Inl e \<Longrightarrow> e = RangeError ''Invalid time value''"
  by (auto simp: normalizeFromGNews_def split: sum.splits dest!: mapE_error normalizeArticle_error)

lemma fetchJson_error:
  "fetchJson net endpoint label = Inl e \<Longrightarrow>
     e = TypeError ''Failed to fetch'' \<or>
     (\<exists>status. e = Error (label @ '' fetch failed: '' @ numberToString (Some (int status)))) \<or>
     e = SyntaxError ''Unexpected token in JSON'' \<or>
     e = TypeError ''Cannot read properties of null''"
  by (auto simp: fetchJson_def split: fetchOutcome.splits jsonBody.splits if_splits)

lemma fetchFromProvider_NEWSAPI:
  "fetchFromProvider h env net ''NEWSAPI'' =
     (if \<not> truthy (REACT_APP_NEWSAPI_KEY env)
      then (Inl (Error ''Missing REACT_APP_NEWSAPI_KEY for NEWSAPI provider''), [])
      else
        (case fetchJson net newsApiEndpoint ''NewsAPI'' of
           Inl e \<Rightarrow> (Inl e, [newsApiEndpoint])
         | Inr (hs, arts) \<Rightarrow>
             (normalizeFromNewsAPI h (case arts of None \<Rightarrow> [] | Some xs \<Rightarrow> xs),
              [newsApiEndpoint])))"
  by (subst fetchFromProvider.simps) simp

lemma fetchFromProvider_GNEWS:
  "fetchFromProvider h env net ''GNEWS'' =
     (if \<not> truthy (REACT_APP_GNEWS_KEY env)
      then (Inl (Error ''Missing REACT_APP_GNEWS_KEY for GNEWS provider''), [])
      else
        (case fetchJson net gnewsEndpoint ''GNews'' of
           Inl e \<Rightarrow> (Inl e, [gnewsEndpoint])
         | Inr (hs, arts) \<Rightarrow>
             (normalizeFromGNews h (case arts of None \<Rightarrow> [] | Some xs \<Rightarrow> xs),
              [gnewsEndpoint])))"
  by (subst fetchFromProvider.simps) simp

lemma keyed_NEWSAPI_present:
  assumes "truthy (REACT_APP_NEWSAPI_KEY env)"
  shows "snd (fetchFromProvider h env net ''NEWSAPI'') = [newsApiEndpoint] \<and>
         fst (fetchFromProvider h env net ''NEWSAPI'') \<noteq>
           Inl (Error ''Missing REACT_APP_NEWSAPI_KEY for NEWSAPI provider'')"
proof (cases "fetchJson net newsApiEndpoint ''NewsAPI''")
  case (Inl e)
  from fetchJson_error[OF Inl] have "e \<noteq> Error ''Missing REACT_APP_NEWSAPI_KEY for NEWSAPI provider''"
    by auto
  with Inl assms show ?thesis by (simp add: fetchFromProvider_NEWSAPI)
next
  case (Inr p)
  obtain hs arts where p: "p = (hs, arts)" by (cases p)
  have "normalizeFromNewsAPI h (case arts of None \<Rightarrow> [] | Some xs \<Rightarrow> xs) \<noteq>
          Inl (Error ''Missing REACT_APP_NEWSAPI_KEY for NEWSAPI provider'')"
    using normalizeFromNewsAPI_error by fastforce
  with Inr p assms show ?thesis by (simp add: fetchFromProvider_NEWSAPI)
qed

lemma keyed_GNEWS_present:
  assumes "truthy (REACT_APP_GNEWS_KEY env)"
  shows "snd (fetchFromProvider h env net ''GNEWS'') = [gnewsEndpoint] \<and>
         fst (fetchFromProvider h env net ''GNEWS'') \<noteq>
           Inl (Error ''Missing REACT_APP_GNEWS_KEY for GNEWS provider'')"
proof (cases "fetchJson net gnewsEndpoint ''GNews''")
  case (Inl e)
  from fetchJson_error[OF Inl] have "e \<noteq> Error ''Missing REACT_APP_GNEWS_KEY for GNEWS provider''"
    by auto
  with Inl assms show ?thesis by (simp add: fetchFromProvider_GNEWS)
next
  case (Inr p)
  obtain hs arts where p: "p = (hs, arts)" by (cases p)
  have "normalizeFromGNews h (case arts of None \<Rightarrow> [] | Some xs \<Rightarrow> xs) \<noteq>
          Inl (Error ''Missing REACT_APP_GNEWS_KEY for GNEWS provider'')"
    using normalizeFromGNews_error by fastforce
  with Inr p assms show ?thesis by (simp add: fetchFromProvider_GNEWS)
qed

text \<open>Claim C7. For \<open>NEWSAPI\<close> and \<open>GNEWS\<close>, when the key is absent (unset or empty)
  \<open>fetchFromProvider\<close> throws the error "Missing ... for ... provider" and no request has
  been made, whatever the network would answer. When the key is present the request is
  made, and no failure of it (rejected fetch, HTTP status, malformed body, invalid date) is
  that error: the two kinds are distinct at the adapter.\<close>

theorem missing_key_is_configuration_error:
  "(\<not> truthy (REACT_APP_NEWSAPI_KEY env) \<longrightarrow>
      fetchFromProvider h env net ''NEWSAPI'' =
        (Inl (Error ''Missing REACT_APP_NEWSAPI_KEY for NEWSAPI provider''), [])) \<and>
   (\<not> truthy (REACT_APP_GNEWS_KEY env) \<longrightarrow>
      fetchFromProvider h env net ''GNEWS'' =
        (Inl (Error ''Missing REACT_APP_GNEWS_KEY for GNEWS provider''), [])) \<and>
   (truthy (REACT_APP_NEWSAPI_KEY env) \<longrightarrow>
      snd (fetchFromProvider h env net ''NEWSAPI'') = [newsApiEndpoint] \<and>
      fst (fetchFromProvider h env net ''NEWSAPI'') \<noteq>
        Inl (Error ''Missing REACT_APP_NEWSAPI_KEY for NEWSAPI provider'')) \<and>
   (truthy (REACT_APP_GNEWS_KEY env) \<longrightarrow>
      snd (fetchFromProvider h env net ''GNEWS'') = [gnewsEndpoint] \<and>
      fst (fetchFromProvider h env net ''GNEWS'') \<noteq>
        Inl (Error ''Missing REACT_APP_GNEWS_KEY for GNEWS provider''))"
  using keyed_NEWSAPI_present[of env h net] keyed_GNEWS_present[of env h net]
  by (simp add: fetchFromProvider_NEWSAPI fetchFromProvider_GNEWS)

theorem missing_key_is_configuration_error_witness:
  "\<not> truthy (REACT_APP_NEWSAPI_KEY sampleEnv) \<and>
   fetchFromProvider sampleHost sampleEnv offlineNet ''NEWSAPI'' =
     (Inl (Error ''Missing REACT_APP_NEWSAPI_KEY for NEWSAPI provider''), []) \<and>
   truthy (REACT_APP_GNEWS_KEY (sampleEnv\<lparr>REACT_APP_GNEWS_KEY := Some ''k''\<rparr>)) \<and>
   snd (fetchFromProvider sampleHost (sampleEnv\<lparr>REACT_APP_GNEWS_KEY := Some ''k''\<rparr>) offlineNet
          ''GNEWS'') = [gnewsEndpoint]"
proof -
  have a: "\<not> truthy (REACT_APP_NEWSAPI_KEY sampleEnv)"
    by (simp add: sampleEnv_def truthy_def)
  have b: "truthy (REACT_APP_GNEWS_KEY (sampleEnv\<lparr>REACT_APP_GNEWS_KEY := Some ''k''\<rparr>))"
    by (simp add: truthy_def)
  from a b
    missing_key_is_configuration_error[of sampleEnv sampleHost offlineNet]
    missing_key_is_configuration_error
      [of "sampleEnv\<lparr>REACT_APP_GNEWS_KEY := Some ''k''\<rparr>" sampleHost offlineNet]
  show ?thesis by blast
qed

end
